theory Spec2Isabelle
  imports Complex_Main "HOL-Library.AList"
begin

section \<open>JavaScript values and numbers\<close>

text \<open>
  The settlement code computes on JavaScript numbers. A finite number is modelled by the
  exact rational it denotes (\<open>Fin q\<close>); the three non-finite values are kept apart,
  because \<open>Number.isFinite\<close> and the \<open>||\<close> fallbacks of the source branch on them.
  Products are exact: the binary rounding of a double product is not modelled. For the
  integer rupee amounts and the factor 0.5 of the stage split the double product is exact.
  Values read from documents are \<open>jsval\<close>: \<open>undefined\<close> (a missing field), \<open>null\<close>,
  booleans and numbers. Strings are not among them: no numeric field of the payout path is
  written as a string.
\<close>

datatype jsnum = Fin rat | NaN | PosInf | NegInf

datatype jsval = Undefined | Null | Bool bool | Num jsnum

text \<open>\<open>Number(v)\<close>: \<open>undefined\<close> is NaN, but \<open>null\<close> is 0.\<close>

fun toNumber :: "jsval \<Rightarrow> jsnum" where
  "toNumber Undefined = NaN"
| "toNumber Null = Fin 0"
| "toNumber (Bool b) = Fin (if b then 1 else 0)"
| "toNumber (Num n) = n"

text \<open>Truthiness, as used by \<open>v || 0\<close>.\<close>

fun truthy :: "jsval \<Rightarrow> bool" where
  "truthy Undefined = False"
| "truthy Null = False"
| "truthy (Bool b) = b"
| "truthy (Num (Fin q)) = (q \<noteq> 0)"
| "truthy (Num NaN) = False"
| "truthy (Num PosInf) = True"
| "truthy (Num NegInf) = True"

text \<open>\<open>Math.round\<close>: the nearest integer, a tie going towards plus infinity.\<close>

definition mathRound :: "rat \<Rightarrow> int" where
  "mathRound x = \<lfloor>x + 1 / 2\<rfloor>"

section \<open>Settlement policy (config/settlementPolicy.js)\<close>

definition DISPUTE_WINDOW_HOURS :: int where "DISPUTE_WINDOW_HOURS = 12"

definition REQUIRE_PAN_FOR_PAYOUT :: bool where "REQUIRE_PAN_FOR_PAYOUT = True"
definition TDS_RATE_WITH_PAN :: rat where "TDS_RATE_WITH_PAN = 1 / 1000"
definition TDS_RATE_NO_PAN :: rat where "TDS_RATE_NO_PAN = 5 / 100"
definition TDS_FY_TURNOVER_EXEMPT_LIMIT :: rat where "TDS_FY_TURNOVER_EXEMPT_LIMIT = 500000"

text \<open>
  \<open>ECO_TCS_RATE\<close> and \<open>ESCROW_FEE_RATE\<close> are read from the environment when the module is
  loaded (defaults 0.005 and 0.016), so they are parameters of the model.
  \<open>ECO_TCS_BORNE_BY_PLATFORM\<close> is the constant \<open>true\<close> of the policy module; the
  distribution calculator reads it through \<open>!== false\<close>, so it stays a field.
\<close>

record policy =
  ECO_TCS_RATE :: jsnum
  ECO_TCS_BORNE_BY_PLATFORM :: bool
  ESCROW_FEE_RATE :: jsnum

definition defaultPolicy :: policy where
  "defaultPolicy =
     \<lparr>ECO_TCS_RATE = Fin (5 / 1000), ECO_TCS_BORNE_BY_PLATFORM = True,
      ESCROW_FEE_RATE = Fin (16 / 1000)\<rparr>"

definition roundInr :: "jsval \<Rightarrow> int" where
  "roundInr v =
     (case toNumber (if truthy v then v else Num (Fin 0)) of
        Fin q \<Rightarrow> mathRound q
      | _ \<Rightarrow> 0)"

definition parseNumber :: "jsval \<Rightarrow> rat option" where
  "parseNumber v = (case toNumber v of Fin q \<Rightarrow> Some q | _ \<Rightarrow> None)"

text \<open>
  \<open>deriveFyTurnover\<close> walks nine candidate fields (of the profile, of its \<open>kyc\<close> map and
  of the user document) and returns the first that parses to a number at least 0, otherwise
  \<open>null\<close>. The argument is the list of the nine field reads, in the source's order.
\<close>

fun deriveFyTurnover :: "jsval list \<Rightarrow> jsval" where
  "deriveFyTurnover [] = Null"
| "deriveFyTurnover (v # vs) =
     (case parseNumber v of
        Some q \<Rightarrow> (if q \<ge> 0 then Num (Fin q) else deriveFyTurnover vs)
      | None \<Rightarrow> deriveFyTurnover vs)"

record tds =
  tds_rate :: rat
  tds_amount :: int
  tds_reason :: string
  tds_turnover :: "rat option"

definition computeTdsForPayout :: "jsval \<Rightarrow> jsval \<Rightarrow> jsval \<Rightarrow> tds" where
  "computeTdsForPayout serviceFee panVerified fyTurnover =
     (let gross = max 0 (roundInr serviceFee);
          panOk = (panVerified = Bool True);
          turnover = parseNumber fyTurnover;
          (rate, reason) =
            (if \<not> panOk then (TDS_RATE_NO_PAN, ''pan_missing_or_unverified'')
             else if turnover = None then (TDS_RATE_WITH_PAN, ''turnover_unknown_default_tds'')
             else if the turnover > TDS_FY_TURNOVER_EXEMPT_LIMIT
               then (TDS_RATE_WITH_PAN, ''above_turnover_threshold'')
             else (0, ''exempt_turnover''))
      in \<lparr>tds_rate = rate,
          tds_amount = max 0 (roundInr (Num (Fin (of_int gross * rate)))),
          tds_reason = reason,
          tds_turnover = turnover\<rparr>)"

section \<open>Per-recipient stage split (releasePayoutNow)\<close>

text \<open>
  \<open>releasePayoutNow\<close> maps the stage key to \<open>stage1\<close>, \<open>stage2\<close> or, for any other key,
  \<open>single\<close>.
\<close>

datatype stage = Stage1 | Stage2 | Single

definition stageOfKey :: "string \<Rightarrow> stage" where
  "stageOfKey k = (if k = ''stage1'' then Stage1 else if k = ''stage2'' then Stage2 else Single)"

definition ecoTcsRateOf :: "jsnum \<Rightarrow> rat" where
  "ecoTcsRateOf r = (case r of Fin q \<Rightarrow> (if q \<ge> 0 then q else 0) | _ \<Rightarrow> 0)"

record allocation =
  grossTotal :: int
  tdsRate :: rat
  tdsReason :: string
  fyTurnover :: "rat option"
  tdsTotal :: int
  netTotal :: int
  tcsPlatformCostTotal :: int
  stageGross :: int
  stageTds :: int
  stageTcsPlatformCost :: int
  stageNet :: int

text \<open>
  The body of the loop over the service items, from \<open>const grossTotal = roundInr(item.amount)\<close>
  to the allocation row: \<open>amount\<close> is the item's amount, \<open>panOk\<close> the profile's
  \<open>kyc.panVerified === true\<close>, \<open>turnoverFields\<close> the nine reads of \<open>deriveFyTurnover\<close>.
\<close>

definition stageSplit :: "policy \<Rightarrow> stage \<Rightarrow> jsval \<Rightarrow> bool \<Rightarrow> jsval list \<Rightarrow> allocation" where
  "stageSplit pol stg amount panOk turnoverFields =
     (let ecoTcsRate = ecoTcsRateOf (ECO_TCS_RATE pol);
          grossTotal = roundInr amount;
          fyTurnover = deriveFyTurnover turnoverFields;
          t = computeTdsForPayout (Num (Fin (of_int grossTotal))) (Bool panOk) fyTurnover;
          tdsTotal = max 0 (roundInr (Num (Fin (of_int (tds_amount t)))));
          tcsPlatformCostTotal =
            (if ECO_TCS_BORNE_BY_PLATFORM pol
             then max 0 (roundInr (Num (Fin (of_int grossTotal * ecoTcsRate)))) else 0);
          grossStage1 = \<lfloor>of_int grossTotal * (1 / 2 :: rat)\<rfloor>;
          tdsStage1 = \<lfloor>of_int tdsTotal * (1 / 2 :: rat)\<rfloor>;
          tcsPlatformCostStage1 = \<lfloor>of_int tcsPlatformCostTotal * (1 / 2 :: rat)\<rfloor>;
          stageGross = (case stg of Stage1 \<Rightarrow> grossStage1
                        | Stage2 \<Rightarrow> grossTotal - grossStage1 | Single \<Rightarrow> grossTotal);
          stageTds = (case stg of Stage1 \<Rightarrow> tdsStage1
                        | Stage2 \<Rightarrow> tdsTotal - tdsStage1 | Single \<Rightarrow> tdsTotal);
          stageTcsPlatformCost = (case stg of Stage1 \<Rightarrow> tcsPlatformCostStage1
                        | Stage2 \<Rightarrow> tcsPlatformCostTotal - tcsPlatformCostStage1
                        | Single \<Rightarrow> tcsPlatformCostTotal)
      in \<lparr>grossTotal = grossTotal,
          tdsRate = tds_rate t,
          tdsReason = tds_reason t,
          fyTurnover = tds_turnover t,
          tdsTotal = tdsTotal,
          netTotal = max 0 (grossTotal - tdsTotal),
          tcsPlatformCostTotal = tcsPlatformCostTotal,
          stageGross = stageGross,
          stageTds = stageTds,
          stageTcsPlatformCost = stageTcsPlatformCost,
          stageNet = max 0 (stageGross - stageTds)\<rparr>)"

section \<open>Distribution calculator (computeDistribution)\<close>

record distribution =
  artistGross :: rat
  artistNet :: rat
  ecoTcsRate :: rat
  ecoTcsWithheld :: int
  ecoTcsPlatformCost :: int
  ecoTcsPayer :: string
  platformFee :: int
  adminAmount :: int
  commission :: int
  platformRetained :: int
  gstCollectedTotal :: int
  gstOnPlatformFee :: int
  gstOnCommission :: int

text \<open>
  \<open>amt\<close> is \<open>Number(amount) || 0\<close> for a finite amount. The fee and GST rates and the
  bracket bounds are the local constants of the source.
\<close>

definition computeDistribution :: "policy \<Rightarrow> rat \<Rightarrow> distribution" where
  "computeDistribution pol amt =
     (let GST = (18 / 100 :: rat);
          PLATFORM_FEE_RATE = (99 / 1000 :: rat);
          PLATFORM_FEE_MIN_SMALL = (999 :: int);
          PLATFORM_FEE_MIN_MEDIUM = (1999 :: int);
          PLATFORM_FEE_NO_MIN_THRESHOLD = (50000 :: rat);
          PLATFORM_FEE_SMALL_THRESHOLD = (20000 :: rat);
          computedPlatformFee = mathRound (amt * PLATFORM_FEE_RATE);
          platformFee =
            (if amt \<ge> PLATFORM_FEE_NO_MIN_THRESHOLD then max 0 computedPlatformFee
             else max (if amt < PLATFORM_FEE_SMALL_THRESHOLD then PLATFORM_FEE_MIN_SMALL
                       else PLATFORM_FEE_MIN_MEDIUM) computedPlatformFee);
          commission = (0 :: int);
          gstOnPlatformFee = mathRound (of_int platformFee * GST);
          gstOnCommission = (0 :: int);
          gstCollectedTotal = gstOnPlatformFee;
          ecoTcsRate = ecoTcsRateOf (ECO_TCS_RATE pol);
          ecoTcsAmount = max 0 (mathRound (amt * ecoTcsRate));
          tcsBorneByPlatform = ECO_TCS_BORNE_BY_PLATFORM pol;
          artistGross = max 0 amt;
          artistNet = (if tcsBorneByPlatform then artistGross
                       else max 0 (artistGross - of_int ecoTcsAmount));
          adminAmount = max 0 (platformFee + gstOnPlatformFee);
          platformRetained = adminAmount
      in \<lparr>artistGross = artistGross,
          artistNet = artistNet,
          ecoTcsRate = ecoTcsRate,
          ecoTcsWithheld = (if tcsBorneByPlatform then 0 else ecoTcsAmount),
          ecoTcsPlatformCost = (if tcsBorneByPlatform then ecoTcsAmount else 0),
          ecoTcsPayer = (if tcsBorneByPlatform then ''platform_borne'' else ''supplier_withheld''),
          platformFee = platformFee,
          adminAmount = adminAmount,
          commission = commission,
          platformRetained = platformRetained,
          gstCollectedTotal = gstCollectedTotal,
          gstOnPlatformFee = gstOnPlatformFee,
          gstOnCommission = gstOnCommission\<rparr>)"

text \<open>
  The fee rule in the words of the specification: the larger of a minimum that depends on
  the amount's bracket and the rounded percentage.
\<close>

definition tieredMinimum :: "rat \<Rightarrow> int" where
  "tieredMinimum gross = (if gross < 20000 then 999 else if gross < 50000 then 1999 else 0)"

definition specPlatformFee :: "rat \<Rightarrow> int" where
  "specPlatformFee gross = max (tieredMinimum gross) (mathRound (gross * (99 / 1000)))"

section \<open>Identity gate (normalizeIdentityName, identitySimilarityPercent, evaluateIdentityMatch)\<close>

text \<open>
  Names are strings of 8-bit characters, read as the code points 0 to 255. On these,
  \<open>toLowerCase\<close> shifts A to Z and the accented capitals 192 to 222 (without 215), and
  the class \<open>\s\<close> of the regular expressions is tab, line feed, vertical tab, form feed,
  carriage return, space and the no-break space 160.
\<close>

definition isWhitespace :: "char \<Rightarrow> bool" where
  "isWhitespace c = (of_char c \<in> set [9, 10, 11, 12, 13, 32, 160 :: nat])"

definition isUpperChar :: "char \<Rightarrow> bool" where
  "isUpperChar c =
     (let n = (of_char c :: nat)
      in (65 \<le> n \<and> n \<le> 90) \<or> (192 \<le> n \<and> n \<le> 222 \<and> n \<noteq> 215))"

text \<open>The lower-case letter is 32 above the capital: bit 5 of the code is set.\<close>

definition toLowerChar :: "char \<Rightarrow> char" where
  "toLowerChar c =
     (if isUpperChar c
      then (case c of Char b0 b1 b2 b3 b4 b5 b6 b7 \<Rightarrow> Char b0 b1 b2 b3 b4 True b6 b7)
      else c)"

definition isLowerAlnum :: "char \<Rightarrow> bool" where
  "isLowerAlnum c =
     (let n = (of_char c :: nat) in (97 \<le> n \<and> n \<le> 122) \<or> (48 \<le> n \<and> n \<le> 57))"

text \<open>\<open>.replace(/[^a-z0-9\s]/g, ' ')\<close>\<close>

definition blankOther :: "char \<Rightarrow> char" where
  "blankOther c = (if isLowerAlnum c \<or> isWhitespace c then c else CHR '' '')"

text \<open>
  \<open>.replace(/\s+/g, ' ')\<close>: every maximal run of whitespace becomes one space. The flag
  says whether the previous character belonged to a run already replaced.
\<close>

fun collapseWs :: "bool \<Rightarrow> string \<Rightarrow> string" where
  "collapseWs inRun [] = []"
| "collapseWs inRun (c # cs) =
     (if isWhitespace c
      then (if inRun then collapseWs True cs else CHR '' '' # collapseWs True cs)
      else c # collapseWs False cs)"

definition trim :: "string \<Rightarrow> string" where
  "trim s = rev (dropWhile isWhitespace (rev (dropWhile isWhitespace s)))"

definition normalizeIdentityName :: "string \<Rightarrow> string" where
  "normalizeIdentityName v = trim (collapseWs False (map blankOther (map toLowerChar v)))"

text \<open>\<open>s.split(d)\<close> for a one-character separator; the empty string splits into one empty piece.\<close>

fun splitOn :: "char \<Rightarrow> string \<Rightarrow> string list" where
  "splitOn d [] = [[]]"
| "splitOn d (c # cs) =
     (if c = d then [] # splitOn d cs
      else (case splitOn d cs of [] \<Rightarrow> [[c]] | t # ts \<Rightarrow> (c # t) # ts))"

text \<open>\<open>new Set(a.split(' ').filter(Boolean))\<close>, as a list without duplicates.\<close>

definition tokenSet :: "string \<Rightarrow> string list" where
  "tokenSet a = remdups (filter (\<lambda>t. t \<noteq> []) (splitOn (CHR '' '') a))"

definition identitySimilarityPercent :: "string \<Rightarrow> string \<Rightarrow> int" where
  "identitySimilarityPercent left right =
     (let a = normalizeIdentityName left;
          b = normalizeIdentityName right
      in if a = [] \<or> b = [] then 0
         else if a = b then 100
         else (let aTokens = tokenSet a;
                   bTokens = tokenSet b
               in if aTokens = [] \<or> bTokens = [] then 0
                  else (let overlap = length (filter (\<lambda>token. token \<in> set bTokens) aTokens);
                            score = (2 * of_nat overlap :: rat)
                                      / of_nat (length aTokens + length bTokens)
                        in mathRound (score * 100))))"

text \<open>
  The fields \<open>evaluateIdentityMatch\<close> reads from the profile, from its \<open>kyc\<close> map and from
  the user document. A name field is \<open>None\<close> when it is missing or \<open>null\<close>; a present name
  is a string. The two thresholds come from the environment (default 70 each).
\<close>

record identity_fields =
  kyc_identityOverrideApproved :: jsval
  profile_identityOverrideApproved :: jsval
  user_identityOverrideApproved :: jsval
  profile_legalName :: "string option"
  profile_displayName :: "string option"
  profile_businessName :: "string option"
  user_displayName :: "string option"
  user_name :: "string option"
  user_fullName :: "string option"
  kyc_panName :: "string option"
  kyc_verifiedPanName :: "string option"
  kyc_upiName :: "string option"
  kyc_vpaName :: "string option"
  kyc_bankAccountHolderName :: "string option"
  user_payoutBankDetails_name :: "string option"
  kyc_nameMatchPanProfile :: jsval
  kyc_nameMatchUpiProfile :: jsval
  kyc_nameMatchUpiPan :: jsval
  kyc_upiNameMatch :: jsval

record identity_thresholds =
  thresholdScore :: jsnum
  thresholdSimilarity :: jsnum

definition defaultThresholds :: identity_thresholds where
  "defaultThresholds = \<lparr>thresholdScore = Fin 70, thresholdSimilarity = Fin 70\<rparr>"

text \<open>\<open>a || b || ... || null\<close> over name fields: the first non-empty string.\<close>

fun firstTruthy :: "string option list \<Rightarrow> string option" where
  "firstTruthy [] = None"
| "firstTruthy (None # vs) = firstTruthy vs"
| "firstTruthy (Some s # vs) = (if s = [] then firstTruthy vs else Some s)"

text \<open>\<open>x >= t\<close> for a finite \<open>x\<close> and a threshold that may be NaN or infinite.\<close>

fun geNum :: "rat \<Rightarrow> jsnum \<Rightarrow> bool" where
  "geNum x (Fin t) = (x \<ge> t)"
| "geNum x NaN = False"
| "geNum x PosInf = False"
| "geNum x NegInf = True"

definition overrideApproved :: "identity_fields \<Rightarrow> bool" where
  "overrideApproved f =
     (kyc_identityOverrideApproved f = Bool True
      \<or> profile_identityOverrideApproved f = Bool True
      \<or> user_identityOverrideApproved f = Bool True)"

definition registeredNameOf :: "identity_fields \<Rightarrow> string option" where
  "registeredNameOf f =
     firstTruthy [profile_legalName f, profile_displayName f, profile_businessName f,
                  user_displayName f, user_name f, user_fullName f]"

definition panNameOf :: "identity_fields \<Rightarrow> string option" where
  "panNameOf f = firstTruthy [kyc_panName f, kyc_verifiedPanName f]"

definition upiNameOf :: "identity_fields \<Rightarrow> string option" where
  "upiNameOf f = firstTruthy [kyc_upiName f, kyc_vpaName f]"

definition bankNameOf :: "identity_fields \<Rightarrow> string option" where
  "bankNameOf f = firstTruthy [kyc_bankAccountHolderName f, user_payoutBankDetails_name f]"

text \<open>The finite ones among the four provider scores, each read through \<open>Number\<close>.\<close>

definition numericCandidates :: "identity_fields \<Rightarrow> rat list" where
  "numericCandidates f =
     concat (map (\<lambda>v. case toNumber v of Fin q \<Rightarrow> [q] | _ \<Rightarrow> [])
       [kyc_nameMatchPanProfile f, kyc_nameMatchUpiProfile f,
        kyc_nameMatchUpiPan f, kyc_upiNameMatch f])"

text \<open>The sources with a name, in the order pan, upi, bank.\<close>

definition comparisons :: "identity_fields \<Rightarrow> (string \<times> string) list" where
  "comparisons f =
     concat (map (\<lambda>(source, v). case v of Some s \<Rightarrow> [(source, s)] | None \<Rightarrow> [])
       [(''pan'', panNameOf f), (''upi'', upiNameOf f), (''bank'', bankNameOf f)])"

text \<open>
  The loop over the comparisons: a later source replaces the best one only with a
  strictly larger score.
\<close>

fun bestMatch :: "string \<Rightarrow> (string \<times> string) list \<Rightarrow> int \<times> string option \<Rightarrow> int \<times> string option" where
  "bestMatch registeredName [] acc = acc"
| "bestMatch registeredName ((source, v) # items) (bestSimilarity, bestSource) =
     (let score = identitySimilarityPercent registeredName v
      in if score > bestSimilarity
         then bestMatch registeredName items (score, Some source)
         else bestMatch registeredName items (bestSimilarity, bestSource))"

text \<open>
  The result object. A field that the taken branch does not set is \<open>None\<close>, as is one
  that it sets to \<open>null\<close>.
\<close>

record identity_result =
  passed :: bool
  reason :: string
  bestNumericScore :: "rat option"
  bestSimilarity :: "int option"
  bestSource :: "string option"
  res_registeredName :: "string option"
  res_panName :: "string option"
  res_upiName :: "string option"
  res_bankName :: "string option"

definition emptyResult :: identity_result where
  "emptyResult =
     \<lparr>passed = False, reason = [], bestNumericScore = None, bestSimilarity = None,
      bestSource = None, res_registeredName = None, res_panName = None, res_upiName = None,
      res_bankName = None\<rparr>"

definition evaluateIdentityMatch :: "identity_thresholds \<Rightarrow> identity_fields \<Rightarrow> identity_result" where
  "evaluateIdentityMatch thr f =
     (if overrideApproved f
      then emptyResult\<lparr>passed := True, reason := ''identity_override''\<rparr>
      else
       (let registeredName = registeredNameOf f;
            names = emptyResult\<lparr>res_registeredName := registeredName, res_panName := panNameOf f,
                      res_upiName := upiNameOf f, res_bankName := bankNameOf f\<rparr>
        in case numericCandidates f of
             q # qs \<Rightarrow>
               (let bestNumeric = fold max qs q
                in if geNum bestNumeric (thresholdScore thr)
                   then emptyResult\<lparr>passed := True, reason := ''identity_score_threshold'',
                          bestNumericScore := Some bestNumeric\<rparr>
                   else names\<lparr>passed := False, reason := ''identity_score_below_threshold'',
                          bestNumericScore := Some bestNumeric\<rparr>)
           | [] \<Rightarrow>
               (case registeredName of
                  None \<Rightarrow> names\<lparr>passed := False, reason := ''identity_data_missing''\<rparr>
                | Some reg \<Rightarrow>
                    (if comparisons f = []
                     then names\<lparr>passed := False, reason := ''identity_data_missing''\<rparr>
                     else
                      (let (best, source) = bestMatch reg (comparisons f) (0, None)
                       in if geNum (of_int best) (thresholdSimilarity thr)
                          then emptyResult\<lparr>passed := True,
                                 reason := ''identity_similarity_threshold'',
                                 bestSimilarity := Some best, bestSource := source\<rparr>
                          else names\<lparr>passed := False,
                                 reason := ''identity_similarity_below_threshold'',
                                 bestSimilarity := Some best, bestSource := source\<rparr>)))))"

text \<open>
  The similarity rule in the words of the specification: twice the number of common
  tokens over the sum of the two token counts, as a rounded percentage.
\<close>

definition tokensOf :: "string \<Rightarrow> string set" where
  "tokensOf name = {t \<in> set (splitOn (CHR '' '') (normalizeIdentityName name)). t \<noteq> []}"

definition specSimilarityPercent :: "string \<Rightarrow> string \<Rightarrow> int" where
  "specSimilarityPercent left right =
     mathRound (100 * (2 * of_nat (card (tokensOf left \<inter> tokensOf right)))
                  / of_nat (card (tokensOf left) + card (tokensOf right)))"

definition scoresOf :: "string \<Rightarrow> (string \<times> string) list \<Rightarrow> int list" where
  "scoresOf reg items = map (\<lambda>(source, v). identitySimilarityPercent reg v) items"

definition bestScoreOf :: "string \<Rightarrow> (string \<times> string) list \<Rightarrow> int" where
  "bestScoreOf reg items = fold max (scoresOf reg items) 0"

text \<open>Sample suppliers: only a legal name and a PAN name are on record.\<close>

definition fieldsWith :: "string \<Rightarrow> string \<Rightarrow> identity_fields" where
  "fieldsWith legal pan =
     \<lparr>kyc_identityOverrideApproved = Undefined,
      profile_identityOverrideApproved = Undefined,
      user_identityOverrideApproved = Undefined,
      profile_legalName = Some legal,
      profile_displayName = None,
      profile_businessName = None,
      user_displayName = None,
      user_name = None,
      user_fullName = None,
      kyc_panName = Some pan,
      kyc_verifiedPanName = None,
      kyc_upiName = None,
      kyc_vpaName = None,
      kyc_bankAccountHolderName = None,
      user_payoutBankDetails_name = None,
      kyc_nameMatchPanProfile = Undefined,
      kyc_nameMatchUpiProfile = Undefined,
      kyc_nameMatchUpiPan = Undefined,
      kyc_upiNameMatch = Undefined\<rparr>"

section \<open>Firestore documents and writes\<close>

text \<open>
  A document is a list of fields in which no name occurs twice; a field value is null, a
  boolean, a number, a string, a timestamp in milliseconds, an array or a nested map.
  A field that is missing reads as \<open>undefined\<close> (\<open>None\<close>).
\<close>

datatype fval = FNull | FBool bool | FNum rat | FStr string | FTime int
  | FList "fval list" | FMap "(string \<times> fval) list"

type_synonym doc = "(string \<times> fval) list"

type_synonym collection = "(string \<times> doc) list"

text \<open>Reading a nested field along a path of names, as \<open>a?.b?.c\<close> does.\<close>

fun getPath :: "string list \<Rightarrow> doc \<Rightarrow> fval option" where
  "getPath [] d = Some (FMap d)"
| "getPath (k # ks) d =
     (case map_of d k of
        None \<Rightarrow> None
      | Some v \<Rightarrow>
          (if ks = [] then Some v
           else (case v of FMap sub \<Rightarrow> getPath ks sub | _ \<Rightarrow> None)))"

text \<open>JavaScript truthiness of a field read: maps, arrays and timestamps are objects.\<close>

fun truthyField :: "fval option \<Rightarrow> bool" where
  "truthyField None = False"
| "truthyField (Some FNull) = False"
| "truthyField (Some (FBool b)) = b"
| "truthyField (Some (FNum q)) = (q \<noteq> 0)"
| "truthyField (Some (FStr s)) = (s \<noteq> [])"
| "truthyField (Some (FTime t)) = True"
| "truthyField (Some (FList xs)) = True"
| "truthyField (Some (FMap m)) = True"

definition subMap :: "string \<Rightarrow> doc \<Rightarrow> doc" where
  "subMap k d = (case map_of d k of Some (FMap sub) \<Rightarrow> sub | _ \<Rightarrow> [])"

text \<open>
  Writing at a field path: the maps on the way are created, and a value on the way that
  is not a map is replaced by one.
\<close>

fun setPath :: "string list \<Rightarrow> fval \<Rightarrow> doc \<Rightarrow> doc" where
  "setPath [] v d = d"
| "setPath (k # ks) v d =
     (if ks = [] then AList.update k v d
      else AList.update k (FMap (setPath ks v (subMap k d))) d)"

fun deletePath :: "string list \<Rightarrow> doc \<Rightarrow> doc" where
  "deletePath [] d = d"
| "deletePath (k # ks) d =
     (if ks = [] then AList.delete k d
      else (case map_of d k of
              Some (FMap sub) \<Rightarrow> AList.update k (FMap (deletePath ks sub)) d
            | _ \<Rightarrow> d))"

text \<open>
  The value of a field in the data of a write: a plain value, or one of the sentinels
  \<open>FieldValue.delete()\<close>, \<open>FieldValue.increment(n)\<close> and \<open>FieldValue.arrayUnion(...)\<close>.
  \<open>FieldValue.serverTimestamp()\<close> is written as the timestamp of the call.
\<close>

datatype wvalue = Put fval | Delete | Increment rat | ArrayUnion "fval list"

type_synonym writedata = "(string \<times> wvalue) list"

definition applyWrite :: "string list \<Rightarrow> wvalue \<Rightarrow> doc \<Rightarrow> doc" where
  "applyWrite p w d =
     (case w of
        Put v \<Rightarrow> setPath p v d
      | Delete \<Rightarrow> deletePath p d
      | Increment n \<Rightarrow>
          setPath p (FNum ((case getPath p d of Some (FNum m) \<Rightarrow> m | _ \<Rightarrow> 0) + n)) d
      | ArrayUnion xs \<Rightarrow>
          (let old = (case getPath p d of Some (FList ys) \<Rightarrow> ys | _ \<Rightarrow> [])
           in setPath p (FList (old @ filter (\<lambda>x. x \<notin> set old) (remdups xs))) d))"

text \<open>
  \<open>ref.update(data)\<close>: each key of the data is a field path, its segments separated by
  dots.
\<close>

definition fieldPath :: "string \<Rightarrow> string list" where
  "fieldPath key = splitOn (CHR ''.'') key"

definition fsUpdate :: "writedata \<Rightarrow> doc \<Rightarrow> doc" where
  "fsUpdate wd d = fold (\<lambda>(key, w). applyWrite (fieldPath key) w) wd d"

text \<open>
  \<open>ref.set(data, {merge: true})\<close>: the data is a document, so each key is one field name,
  dots included, and is not split. A nested map of the data is merged field by field:
  the fields written are the leaves of the data.
\<close>

fun leafPaths :: "string list \<Rightarrow> fval \<Rightarrow> (string list \<times> fval) list" where
  "leafPaths p (FMap kvs) =
     (if kvs = [] then [(p, FMap [])]
      else concat (map (\<lambda>(k, v). leafPaths (p @ [k]) v) kvs))"
| "leafPaths p v = [(p, v)]"

definition fsSetMerge :: "writedata \<Rightarrow> doc \<Rightarrow> doc" where
  "fsSetMerge wd d =
     fold (\<lambda>(key, w).
            case w of
              Put v \<Rightarrow> fold (\<lambda>(p, leaf). setPath p leaf) (leafPaths [key] v)
            | _ \<Rightarrow> applyWrite [key] w) wd d"

text \<open>
  Writes through a document reference. \<open>update\<close> fails when the document does not exist
  (\<open>None\<close>); \<open>set\<close> with merge creates it.
\<close>

definition docUpdate :: "string \<Rightarrow> writedata \<Rightarrow> collection \<Rightarrow> collection option" where
  "docUpdate ident wd c =
     (case map_of c ident of
        None \<Rightarrow> None
      | Some d \<Rightarrow> Some (AList.update ident (fsUpdate wd d) c))"

definition docSetMerge :: "string \<Rightarrow> writedata \<Rightarrow> collection \<Rightarrow> collection" where
  "docSetMerge ident wd c =
     AList.update ident (fsSetMerge wd (case map_of c ident of None \<Rightarrow> [] | Some d \<Rightarrow> d)) c"

text \<open>\<open>collection.where(field, '==', value).limit(1).get()\<close>: the first match, if any.\<close>

definition queryFirst :: "string \<Rightarrow> fval \<Rightarrow> collection \<Rightarrow> (string \<times> doc) option" where
  "queryFirst field v c = find (\<lambda>(ident, d). map_of d field = Some v) c"

text \<open>
  The store: the collections the settlement code reads and writes, and the notifications
  handed to \<open>sendNotification\<close> (recipient, type, payload), oldest first. The recipient is
  the field read from the booking, which may be missing.
\<close>

record store =
  bookings :: collection
  payments :: collection
  webhookLogs :: collection
  payout_transfers :: collection
  disputes :: "doc list"
  notifications :: "(fval option \<times> string \<times> doc) list"

definition sendNotification :: "fval option \<Rightarrow> string \<Rightarrow> doc \<Rightarrow> store \<Rightarrow> store" where
  "sendNotification recipient kind payload s =
     s\<lparr>notifications := notifications s @ [(recipient, kind, payload)]\<rparr>"

text \<open>How a call ends: it returns, or it throws with a message.\<close>

datatype outcome = Returned | Threw string

text \<open>\<open>HttpsError(code, message)\<close> of a callable function.\<close>

datatype https_error = HttpsError string string

text \<open>
  \<open>new Date(value)\<close> for a truthy field that is not a timestamp, in milliseconds, \<open>None\<close>
  for an invalid date. Parsing a date string is left to the parameter \<open>parseDate\<close>; a number
  is truncated towards zero and is valid up to 8.64e15 in absolute value.
\<close>

definition newDate :: "(string \<Rightarrow> int option) \<Rightarrow> fval \<Rightarrow> int option" where
  "newDate parseDate v =
     (case v of
        FNum q \<Rightarrow> (if \<bar>q\<bar> \<le> 8640000000000000
                   then Some (if q \<ge> 0 then \<lfloor>q\<rfloor> else \<lceil>q\<rceil>) else None)
      | FStr s \<Rightarrow> parseDate s
      | FBool b \<Rightarrow> Some (if b then 1 else 0)
      | _ \<Rightarrow> None)"

text \<open>\<open>asDate\<close>: a falsy value is \<open>null\<close>, a timestamp converts, anything else goes through \<open>new Date\<close>.\<close>

definition asDate :: "(string \<Rightarrow> int option) \<Rightarrow> fval option \<Rightarrow> int option" where
  "asDate parseDate v =
     (if \<not> truthyField v then None
      else (case v of Some (FTime t) \<Rightarrow> Some t | Some x \<Rightarrow> newDate parseDate x | None \<Rightarrow> None))"

definition hourMs :: int where
  "hourMs = 60 * 60 * 1000"

text \<open>Decimal digits of a number, for the identifiers built from \<open>Date.now()\<close>.\<close>

function showNat :: "nat \<Rightarrow> string" where
  "showNat n =
     (if n < 10 then [char_of (48 + n)]
      else showNat (n div 10) @ [char_of (48 + n mod 10)])"
  by pat_completeness auto
termination
  by (relation "measure id") auto

declare showNat.simps [simp del]

text \<open>Two field paths diverge when they differ at some position that both have.\<close>

fun diverge :: "string list \<Rightarrow> string list \<Rightarrow> bool" where
  "diverge (a # as) (b # bs) = (a \<noteq> b \<or> diverge as bs)"
| "diverge p q = False"

section \<open>Release plan: creation (releasePayout) and claim (payoutScheduler)\<close>




text \<open>
  The claim transaction of \<open>payoutScheduler\<close> on the payment document read inside the
  transaction: it returns whether the stage was claimed, and the document as the
  transaction leaves it. \<open>now\<close> is \<open>Date.now()\<close>.
\<close>

definition claimData :: "int \<Rightarrow> string \<Rightarrow> writedata" where
  "claimData now stageKey =
     [(''releasePlan.'' @ stageKey @ ''.status'', Put (FStr ''processing'')),
      (''releasePlan.'' @ stageKey @ ''.startedAt'', Put (FTime now)),
      (''releaseStatus'', Put (FStr ''processing'')),
      (''releaseStage'', Put (FStr stageKey)),
      (''updatedAt'', Put (FTime now))]"

definition claimStage :: "int \<Rightarrow> string \<Rightarrow> doc \<Rightarrow> bool \<times> doc" where
  "claimStage now stageKey p =
     (let stage = (case getPath [''releasePlan'', stageKey] p of
                     Some (FMap m) \<Rightarrow> m | _ \<Rightarrow> [])
      in if map_of stage ''status'' \<noteq> Some (FStr ''scheduled'') then (False, p)
         else
          (let eligibleAt = map_of stage ''eligibleAt''
           in if \<not> truthyField eligibleAt
                 \<or> (case eligibleAt of Some (FTime t) \<Rightarrow> t > now | _ \<Rightarrow> False)
              then (False, p)
              else (True, fsUpdate (claimData now stageKey) p)))"

text \<open>A field of a stage of the release plan.\<close>

definition stageField :: "string \<Rightarrow> string \<Rightarrow> doc \<Rightarrow> fval option" where
  "stageField stageKey name p = getPath [''releasePlan'', stageKey, name] p"

text \<open>A payment with escrow held and no plan, its booking, and the plan after completion.\<close>

definition samplePayment :: doc where
  "samplePayment =
     [(''bookingId'', FStr ''b1''), (''gatewayOrderId'', FStr ''order1''),
      (''amountExpected'', FNum 20000), (''amountPaid'', FNum 20000),
      (''escrowHeld'', FBool True), (''releaseStatus'', FStr ''held'')]"

definition plannedPayment :: doc where
  "plannedPayment =
     [(''bookingId'', FStr ''b1''), (''gatewayOrderId'', FStr ''order1''),
      (''amountExpected'', FNum 20000), (''amountPaid'', FNum 20000),
      (''escrowHeld'', FBool True), (''releaseStatus'', FStr ''scheduled''),
      (''releasePlanVersion'', FNum 2),
      (''releasePlan'', FMap
         [(''stage1'', FMap [(''key'', FStr ''stage1''), (''fraction'', FNum (1 / 2)),
                             (''eligibleAt'', FTime 1000000), (''status'', FStr ''scheduled'')]),
          (''stage2'', FMap [(''key'', FStr ''stage2''), (''fraction'', FNum (1 / 2)),
                             (''eligibleAt'', FTime 44200000), (''status'', FStr ''scheduled'')])]),
      (''releaseScheduledAt'', FTime 5000000),
      (''updatedAt'', FTime 5000000)]"

definition sampleBooking :: doc where
  "sampleBooking =
     [(''clientId'', FStr ''client1''), (''artistId'', FStr ''artist1''),
      (''status'', FStr ''completed''), (''paidFull'', FBool True),
      (''completedAt'', FTime 1000000)]"


definition sampleStore :: store where
  "sampleStore =
     \<lparr>bookings = [(''b1'', sampleBooking)],
      payments = [(''pay1'', samplePayment)],
      webhookLogs = [],
      payout_transfers = [],
      disputes = [],
      notifications = []\<rparr>"

definition noDates :: "string \<Rightarrow> int option" where
  "noDates s = None"

section \<open>Disputes (raiseDisputeV1, resolveDisputeV1)\<close>

definition lowerCase :: "string \<Rightarrow> string" where
  "lowerCase s = map toLowerChar s"

text \<open>
  \<open>String(b.status || '').toLowerCase()\<close>; the status of a booking is a string or is
  missing.
\<close>

definition statusLower :: "doc \<Rightarrow> string" where
  "statusLower b = (case map_of b ''status'' of Some (FStr st) \<Rightarrow> lowerCase st | _ \<Rightarrow> [])"

definition orNull :: "fval option \<Rightarrow> fval" where
  "orNull v = (if truthyField v then the v else FNull)"

text \<open>\<open>(x ? String(x).trim() : '') || null\<close> for an optional text of the request.\<close>

definition textOrNull :: "string \<Rightarrow> fval" where
  "textOrNull x = (if trim x = [] then FNull else FStr (trim x))"

definition disputeOpenData :: "int \<Rightarrow> string \<Rightarrow> fval \<Rightarrow> writedata" where
  "disputeOpenData now uid message =
     [(''status'', Put (FStr ''disputed'')),
      (''payoutHold'', Put (FBool True)),
      (''dispute'', Put (FMap [(''status'', FStr ''open''), (''openedAt'', FTime now),
                               (''openedBy'', FStr uid), (''message'', message)])),
      (''updatedAt'', Put (FTime now))]"

definition disputeDoc :: "int \<Rightarrow> string \<Rightarrow> string \<Rightarrow> doc \<Rightarrow> fval \<Rightarrow> doc" where
  "disputeDoc now bookingId uid b message =
     [(''schemaVersion'', FNum 1), (''bookingId'', FStr bookingId), (''clientId'', FStr uid),
      (''artistId'', orNull (map_of b ''artistId'')), (''status'', FStr ''open''),
      (''message'', message), (''createdAt'', FTime now), (''updatedAt'', FTime now)]"

text \<open>
  \<open>raiseDisputeV1(data, context)\<close>: \<open>auth\<close> is \<open>context.auth.uid\<close> if any, \<open>dataBookingId\<close>
  and \<open>dataMessage\<close> are the two fields of the request (empty when absent), \<open>now\<close> is the
  time of the call. The result is the error thrown or the booking id returned, with the
  store as the call leaves it.
\<close>

definition raiseDisputeV1 ::
  "(string \<Rightarrow> int option) \<Rightarrow> int \<Rightarrow> string option \<Rightarrow> string \<Rightarrow> string \<Rightarrow> store
     \<Rightarrow> (https_error + string) \<times> store" where
  "raiseDisputeV1 parseDate now auth dataBookingId dataMessage s =
     (case auth of
        None \<Rightarrow> (Inl (HttpsError ''unauthenticated'' ''Authentication required''), s)
      | Some uid \<Rightarrow>
         (if uid = [] then (Inl (HttpsError ''unauthenticated'' ''Authentication required''), s)
          else
           (let bookingId = trim dataBookingId;
                message = textOrNull dataMessage
            in if bookingId = []
               then (Inl (HttpsError ''invalid-argument'' ''bookingId is required''), s)
               else
                (case map_of (bookings s) bookingId of
                   None \<Rightarrow> (Inl (HttpsError ''not-found'' ''Booking not found''), s)
                 | Some b \<Rightarrow>
                    (if map_of b ''clientId'' \<noteq> Some (FStr uid)
                     then (Inl (HttpsError ''permission-denied''
                                  ''Only the client can raise a dispute''), s)
                     else if statusLower b \<noteq> ''completed''
                     then (Inl (HttpsError ''failed-precondition''
                                  ''Disputes can only be raised after event completion''), s)
                     else
                      (case asDate parseDate (map_of b ''completedAt'') of
                         None \<Rightarrow> (Inl (HttpsError ''failed-precondition''
                                          ''Missing completion timestamp''), s)
                       | Some completedAt \<Rightarrow>
                          (if now - completedAt > DISPUTE_WINDOW_HOURS * hourMs
                           then (Inl (HttpsError ''failed-precondition''
                                        ''Dispute window has expired''), s)
                           else (Inr bookingId,
                                 s\<lparr>bookings := docSetMerge bookingId
                                        (disputeOpenData now uid message) (bookings s),
                                   disputes := disputes s
                                        @ [disputeDoc now bookingId uid b message]\<rparr>))))))))"

definition disputeResolveData :: "int \<Rightarrow> string \<Rightarrow> bool \<Rightarrow> string \<Rightarrow> fval \<Rightarrow> writedata" where
  "disputeResolveData now uid unblockPayout resolution note =
     [(''status'', Put (FStr ''completed'')),
      (''payoutHold'', Put (FBool (\<not> unblockPayout))),
      (''dispute'', Put (FMap [(''status'', FStr ''resolved''), (''resolvedAt'', FTime now),
                               (''resolvedBy'', FStr uid),
                               (''resolution'', FStr (if resolution = [] then ''no_action''
                                                      else resolution)),
                               (''note'', note)])),
      (''updatedAt'', Put (FTime now))]"

text \<open>The data of the write that is meant to put stage 2 back on schedule.\<close>

definition unblockData :: "int \<Rightarrow> writedata" where
  "unblockData now =
     [(''releasePlan.stage2.status'', Put (FStr ''scheduled'')),
      (''releasePlan.stage2.error'', Delete),
      (''releasePlan.stage2.updatedAt'', Put (FTime now)),
      (''updatedAt'', Put (FTime now))]"

text \<open>
  \<open>resolveDisputeV1(data, context)\<close>: \<open>isAdmin\<close> is the answer of \<open>hasPermission\<close> for the
  caller. The write to the payment is a \<open>set\<close> with merge.
\<close>

definition resolveDisputeV1 ::
  "int \<Rightarrow> string option \<Rightarrow> bool \<Rightarrow> string \<Rightarrow> string \<Rightarrow> string \<Rightarrow> store
     \<Rightarrow> (https_error + string) \<times> store" where
  "resolveDisputeV1 now auth isAdmin dataBookingId dataResolution dataNote s =
     (case auth of
        None \<Rightarrow> (Inl (HttpsError ''unauthenticated'' ''Authentication required''), s)
      | Some uid \<Rightarrow>
         (if uid = [] then (Inl (HttpsError ''unauthenticated'' ''Authentication required''), s)
          else if \<not> isAdmin
          then (Inl (HttpsError ''permission-denied'' ''Admin access required''), s)
          else
           (let bookingId = trim dataBookingId;
                resolution = lowerCase (trim dataResolution);
                note = textOrNull dataNote
            in if bookingId = []
               then (Inl (HttpsError ''invalid-argument'' ''bookingId is required''), s)
               else
                (case map_of (bookings s) bookingId of
                   None \<Rightarrow> (Inl (HttpsError ''not-found'' ''Booking not found''), s)
                 | Some b \<Rightarrow>
                    (let unblockPayout = (resolution = ''pay_provider''
                                          \<or> resolution = ''pay_artist''
                                          \<or> resolution = ''split'');
                         s1 = s\<lparr>bookings := docSetMerge bookingId
                                   (disputeResolveData now uid unblockPayout resolution note)
                                   (bookings s)\<rparr>
                     in if unblockPayout
                        then (case queryFirst ''bookingId'' (FStr bookingId) (payments s1) of
                                None \<Rightarrow> (Inr bookingId, s1)
                              | Some (paymentId, paymentData) \<Rightarrow>
                                  (Inr bookingId,
                                   s1\<lparr>payments := docSetMerge paymentId (unblockData now)
                                                      (payments s1)\<rparr>))
                        else (Inr bookingId, s1))))))"

text \<open>The booking statuses of the data model.\<close>

definition bookingStatuses :: "string list" where
  "bookingStatuses =
     [''pending_payment'', ''accepted'', ''paid'', ''confirmed'', ''in_progress'',
      ''completed'', ''disputed'', ''cancelled'', ''refunded'']"

text \<open>A disputed booking whose second stage is on hold.\<close>

definition heldPayment :: doc where
  "heldPayment =
     [(''bookingId'', FStr ''b1''), (''gatewayOrderId'', FStr ''order1''),
      (''amountExpected'', FNum 20000), (''amountPaid'', FNum 20000),
      (''escrowHeld'', FBool True), (''releaseStatus'', FStr ''hold''),
      (''releasePlanVersion'', FNum 2),
      (''releasePlan'', FMap
         [(''stage1'', FMap [(''key'', FStr ''stage1''), (''fraction'', FNum (1 / 2)),
                             (''eligibleAt'', FTime 1000000), (''status'', FStr ''enqueued'')]),
          (''stage2'', FMap [(''key'', FStr ''stage2''), (''fraction'', FNum (1 / 2)),
                             (''eligibleAt'', FTime 44200000), (''status'', FStr ''hold''),
                             (''error'', FStr ''payout_hold'')])]),
      (''updatedAt'', FTime 44500000)]"

definition disputedBooking :: doc where
  "disputedBooking =
     [(''clientId'', FStr ''client1''), (''artistId'', FStr ''artist1''),
      (''status'', FStr ''disputed''), (''paidFull'', FBool True),
      (''completedAt'', FTime 1000000), (''payoutHold'', FBool True),
      (''dispute'', FMap [(''status'', FStr ''open''), (''openedAt'', FTime 30000000),
                          (''openedBy'', FStr ''client1''), (''message'', FNull)])]"

definition disputedStore :: store where
  "disputedStore =
     \<lparr>bookings = [(''b1'', disputedBooking)],
      payments = [(''pay1'', heldPayment)],
      webhookLogs = [],
      payout_transfers = [],
      disputes = [],
      notifications = []\<rparr>"

text \<open>The payment of that booking after the dispute is resolved in favour of the provider.\<close>

definition resolvedPayment :: doc where
  "resolvedPayment =
     [(''bookingId'', FStr ''b1''), (''gatewayOrderId'', FStr ''order1''),
      (''amountExpected'', FNum 20000), (''amountPaid'', FNum 20000),
      (''escrowHeld'', FBool True), (''releaseStatus'', FStr ''hold''),
      (''releasePlanVersion'', FNum 2),
      (''releasePlan'', FMap
         [(''stage1'', FMap [(''key'', FStr ''stage1''), (''fraction'', FNum (1 / 2)),
                             (''eligibleAt'', FTime 1000000), (''status'', FStr ''enqueued'')]),
          (''stage2'', FMap [(''key'', FStr ''stage2''), (''fraction'', FNum (1 / 2)),
                             (''eligibleAt'', FTime 44200000), (''status'', FStr ''hold''),
                             (''error'', FStr ''payout_hold'')])]),
      (''updatedAt'', FTime 50000000),
      (''releasePlan.stage2.status'', FStr ''scheduled''),
      (''releasePlan.stage2.updatedAt'', FTime 50000000)]"

section \<open>Webhook ingest (recordWebhook, markWebhookLog, handlePaymentWebhook)\<close>

text \<open>\<open>a || b || ...\<close> where only the truthiness of a falsy result matters: the first truthy read.\<close>

fun firstTruthyVal :: "fval option list \<Rightarrow> fval option" where
  "firstTruthyVal [] = None"
| "firstTruthyVal (v # vs) = (if truthyField v then v else firstTruthyVal vs)"

text \<open>\<open>x || {}\<close> followed by field reads: a value that is not a map has no fields.\<close>

definition objOf :: "fval option \<Rightarrow> doc" where
  "objOf v = (case v of Some (FMap m) \<Rightarrow> m | _ \<Rightarrow> [])"

text \<open>
  A request as the handlers see it. \<open>req_signatureValid\<close> and \<open>req_dashboardTest\<close> are the
  answers of \<open>verifyWebhookSignature\<close> and \<open>isDashboardTest\<close> for it.
\<close>

record webhook_request =
  req_method :: string
  req_headers :: doc
  req_rawBody :: string
  req_body :: doc
  req_signatureValid :: bool
  req_dashboardTest :: bool

text \<open>
  What the model takes from outside: \<open>Number\<close> on a string (\<open>None\<close> for NaN), \<open>String\<close>
  on a value that is not a string, and the ids of the calendar blocks that the block loop
  writes for a booking (\<open>None\<close> when it writes none or fails). The collections
  \<open>calendar_blocks\<close> and \<open>adminTasks\<close> and the KPI counter are not part of the store.
\<close>

record runtime =
  numberOfText :: "string \<Rightarrow> rat option"
  textOfValue :: "fval \<Rightarrow> string"
  calendarBlockIds :: "doc \<Rightarrow> string list option"

text \<open>\<open>String(v || '')\<close>\<close>

definition textOf :: "runtime \<Rightarrow> fval option \<Rightarrow> string" where
  "textOf rt v =
     (case v of
        Some (FStr t) \<Rightarrow> t
      | Some x \<Rightarrow> (if truthyField v then textOfValue rt x else [])
      | None \<Rightarrow> [])"

definition numberOf :: "runtime \<Rightarrow> fval option \<Rightarrow> rat option" where
  "numberOf rt v =
     (case v of
        Some (FNum q) \<Rightarrow> Some q
      | Some (FStr t) \<Rightarrow> numberOfText rt t
      | Some (FBool b) \<Rightarrow> Some (if b then 1 else 0)
      | Some FNull \<Rightarrow> Some 0
      | _ \<Rightarrow> None)"

text \<open>
  \<open>recordWebhook\<close> on the log collection. The event id is the first truthy candidate of
  the caller, or a fallback built from the clock. A document id must be a string:
  \<open>None\<close> is the exception of \<open>doc()\<close> on any other value. Otherwise the result is the
  duplicate flag, the id of the log entry and the collection as the call leaves it.
\<close>

definition processingData :: "int \<Rightarrow> string \<Rightarrow> string \<Rightarrow> webhook_request \<Rightarrow> writedata" where
  "processingData now safeEventId source req =
     [(''eventId'', Put (FStr safeEventId)),
      (''status'', Put (FStr ''processing'')),
      (''source'', Put (FStr source)),
      (''receivedAt'', Put (FTime now)),
      (''rawBody'', Put (FStr (req_rawBody req))),
      (''headers'', Put (FMap (req_headers req))),
      (''attempts'', Increment 1)]"

text \<open>\<open>existing.exists && existing.data()?.status === 'processed'\<close>\<close>

definition alreadyProcessed :: "doc option \<Rightarrow> bool" where
  "alreadyProcessed existing =
     (case existing of
        Some entry \<Rightarrow> map_of entry ''status'' = Some (FStr ''processed'')
      | None \<Rightarrow> False)"

definition recordWebhook ::
  "int \<Rightarrow> fval option \<Rightarrow> webhook_request \<Rightarrow> string \<Rightarrow> collection
     \<Rightarrow> (bool \<times> string \<times> collection) option" where
  "recordWebhook now eventId req source logs =
     (case (if truthyField eventId then eventId
            else Some (FStr (''fallback:'' @ showNat (nat now)))) of
        Some (FStr safeEventId) \<Rightarrow>
          (if alreadyProcessed (map_of logs safeEventId)
           then Some (True, safeEventId, logs)
           else Some (False, safeEventId,
                      docSetMerge safeEventId (processingData now safeEventId source req) logs))
      | _ \<Rightarrow> None)"

text \<open>
  \<open>markWebhookLog\<close>: the data is \<open>{status, processedAt, ...extra}\<close>, so a key of \<open>extra\<close>
  replaces the same key before it.
\<close>

definition markData :: "int \<Rightarrow> string \<Rightarrow> writedata \<Rightarrow> writedata" where
  "markData now status extra =
     fold (\<lambda>(k, w). AList.update k w) extra
       [(''status'', Put (FStr status)), (''processedAt'', Put (FTime now))]"

definition markWebhookLog :: "int \<Rightarrow> string \<Rightarrow> string \<Rightarrow> writedata \<Rightarrow> store \<Rightarrow> store" where
  "markWebhookLog now logId status extra s =
     s\<lparr>webhookLogs := docSetMerge logId (markData now status extra) (webhookLogs s)\<rparr>"

definition PAYMENT_SUCCESS_STATUSES :: "string list" where
  "PAYMENT_SUCCESS_STATUSES =
     [''success'', ''successful'', ''success_webhook'', ''payment_success'',
      ''payment_success_webhook'', ''payment_success_webhook_v2'']"

definition PAYMENT_FAILURE_STATUSES :: "string list" where
  "PAYMENT_FAILURE_STATUSES =
     [''failed'', ''failure'', ''payment_failed'', ''payment_failure_webhook'', ''cancelled'']"

text \<open>
  \<open>normalizeStatus\<close>: \<open>null\<close> (here \<open>None\<close>) for a falsy status, otherwise its text, trimmed
  and in lower case; that text may be empty.
\<close>

definition normalizeStatus :: "runtime \<Rightarrow> fval option \<Rightarrow> string option" where
  "normalizeStatus rt statusRaw =
     (if \<not> truthyField statusRaw then None
      else Some (lowerCase (trim (textOf rt statusRaw))))"

text \<open>\<open>status && SET.has(status)\<close>: the empty text is falsy, and in neither set.\<close>

definition statusIn :: "string option \<Rightarrow> string list \<Rightarrow> bool" where
  "statusIn status known = (case status of Some t \<Rightarrow> t \<in> set known | None \<Rightarrow> False)"

definition amountValue :: "rat option \<Rightarrow> fval" where
  "amountValue a = (case a of Some q \<Rightarrow> FNum q | None \<Rightarrow> FNull)"

text \<open>The fields of the event that the payment handler reads.\<close>

definition paymentEventId :: "int \<Rightarrow> doc \<Rightarrow> fval option" where
  "paymentEventId now event =
     (case firstTruthyVal [map_of event ''eventId'', map_of event ''id'',
                           map_of event ''cf_event_id'',
                           getPath [''data'', ''payment'', ''cf_payment_id''] event] of
        Some v \<Rightarrow> Some v
      | None \<Rightarrow> Some (FStr (''payment:'' @ showNat (nat now))))"

definition orderObjOf :: "doc \<Rightarrow> doc" where
  "orderObjOf event =
     objOf (firstTruthyVal [map_of event ''order'', getPath [''data'', ''order''] event,
                            getPath [''data'', ''orderDetails''] event])"

definition paymentObjOf :: "doc \<Rightarrow> doc" where
  "paymentObjOf event =
     objOf (firstTruthyVal [map_of event ''payment'', getPath [''data'', ''payment''] event,
                            getPath [''data'', ''paymentDetails''] event])"

definition orderIdOf :: "doc \<Rightarrow> fval option" where
  "orderIdOf event =
     firstTruthyVal [map_of (orderObjOf event) ''order_id'', map_of (orderObjOf event) ''orderId'',
                     map_of event ''orderId'']"

definition txStatusRawOf :: "doc \<Rightarrow> fval option" where
  "txStatusRawOf event =
     firstTruthyVal [map_of (paymentObjOf event) ''payment_status'',
                     map_of (paymentObjOf event) ''paymentStatus'',
                     map_of (paymentObjOf event) ''txStatus'',
                     map_of event ''txStatus'', map_of event ''status'']"

definition paymentIdOf :: "doc \<Rightarrow> fval option" where
  "paymentIdOf event =
     firstTruthyVal [map_of (paymentObjOf event) ''cf_payment_id'',
                     map_of (paymentObjOf event) ''payment_id'',
                     map_of (paymentObjOf event) ''referenceId'',
                     map_of event ''referenceId'']"

definition orderAmountOf :: "runtime \<Rightarrow> doc \<Rightarrow> rat option" where
  "orderAmountOf rt event =
     (case firstTruthyVal [map_of (paymentObjOf event) ''payment_amount'',
                           map_of (paymentObjOf event) ''amount'',
                           map_of (orderObjOf event) ''order_amount'',
                           map_of event ''orderAmount''] of
        None \<Rightarrow> Some 0
      | Some v \<Rightarrow> numberOf rt (Some v))"

text \<open>The success branch: the payment is marked paid with escrow held.\<close>

definition paymentPaidData :: "int \<Rightarrow> doc \<Rightarrow> rat option \<Rightarrow> doc \<Rightarrow> writedata" where
  "paymentPaidData now event orderAmount paymentData =
     [(''gatewayPaymentId'',
         Put (orNull (firstTruthyVal [paymentIdOf event, map_of paymentData ''gatewayPaymentId'']))),
      (''amountPaid'',
         Put (case firstTruthyVal [Some (amountValue orderAmount),
                                   map_of paymentData ''amountPaid''] of
                Some v \<Rightarrow> v | None \<Rightarrow> FNum 0)),
      (''escrowHeld'', Put (FBool True)),
      (''releaseStatus'', Put (FStr ''held'')),
      (''status'', Put (FStr ''paid'')),
      (''lastWebhook'', Put (FMap event)),
      (''updatedAt'', Put (FTime now))]"

text \<open>
  The booking update of the success branch: a capture in stage \<open>balance\<close>, or one that
  leaves nothing due later, makes the booking fully paid.
\<close>

definition bookingPaidData :: "runtime \<Rightarrow> int \<Rightarrow> doc \<Rightarrow> writedata" where
  "bookingPaidData rt now booking =
     (let stage = lowerCase (textOf rt (map_of booking ''paymentStage''));
          dueLater = (if truthyField (map_of booking ''amountDueLater'')
                      then numberOf rt (map_of booking ''amountDueLater'') else Some 0);
          base = [(''status'', Put (FStr ''paid'')),
                  (''paymentCapturedAt'', Put (FTime now)),
                  (''updatedAt'', Put (FTime now))];
          full = [(''paidFull'', Put (FBool True)),
                  (''paidFullAt'', Put (FTime now)),
                  (''paymentStage'', Put (FStr ''paid_full''))];
          advance = [(''advancePaid'', Put (FBool True)),
                     (''advancePaidAt'', Put (FTime now))]
      in if stage = ''balance'' then base @ full
         else (case dueLater of
                 Some q \<Rightarrow> (if q \<le> 0 then base @ advance @ full else base @ advance)
               | None \<Rightarrow> base @ advance))"

definition calendarData :: "runtime \<Rightarrow> int \<Rightarrow> doc \<Rightarrow> string list \<Rightarrow> writedata" where
  "calendarData rt now booking blockIds =
     (let startDate = trim (textOf rt (map_of booking ''eventDate''));
          endDate = trim (textOf rt (firstTruthyVal [map_of booking ''eventEndDate'',
                                                      map_of booking ''eventDate'']))
      in [(''calendarLocked'', Put (FBool True)),
          (''calendarBlockIds'', Put (FList (map FStr blockIds))),
          (''calendarBlockStartDate'', Put (textOrNull startDate)),
          (''calendarBlockEndDate'', Put (textOrNull endDate)),
          (''updatedAt'', Put (FTime now))])"

definition paymentNotice :: "rat option \<Rightarrow> string \<Rightarrow> doc" where
  "paymentNotice orderAmount bookingId =
     [(''amount'', amountValue orderAmount), (''bookingId'', FStr bookingId)]"

definition notifyIfSet :: "fval option \<Rightarrow> string \<Rightarrow> doc \<Rightarrow> store \<Rightarrow> store" where
  "notifyIfSet recipient kind payload s =
     (if truthyField recipient then sendNotification recipient kind payload s else s)"

definition bookingPaid :: "runtime \<Rightarrow> int \<Rightarrow> rat option \<Rightarrow> string \<Rightarrow> store \<Rightarrow> store" where
  "bookingPaid rt now orderAmount bookingId s =
     (case map_of (bookings s) bookingId of
        None \<Rightarrow> s
      | Some booking \<Rightarrow>
          (let wd = bookingPaidData rt now booking;
               s2 = s\<lparr>bookings := AList.update bookingId (fsUpdate wd booking) (bookings s)\<rparr>;
               s3 = (if map_of wd ''advancePaid'' = Some (Put (FBool True))
                     then (case calendarBlockIds rt booking of
                             Some ids \<Rightarrow>
                               s2\<lparr>bookings := docSetMerge bookingId (calendarData rt now booking ids)
                                                  (bookings s2)\<rparr>
                           | None \<Rightarrow> s2)
                     else s2);
               s4 = sendNotification (map_of booking ''clientId'') ''payment_success''
                      (paymentNotice orderAmount bookingId) s3;
               s5 = notifyIfSet (map_of booking ''artistId'') ''payment_success''
                      (paymentNotice orderAmount bookingId) s4
           in notifyIfSet (map_of booking ''vendorId'') ''payment_success''
                (paymentNotice orderAmount bookingId) s5))"

text \<open>
  What the handler does once the event is logged as \<open>processing\<close>: the response (status
  code and body) and the store. An exception anywhere is caught by the handler and
  answered with 500, whatever was written before staying written.
\<close>

definition dispatchPayment ::
  "runtime \<Rightarrow> int \<Rightarrow> webhook_request \<Rightarrow> string \<Rightarrow> store \<Rightarrow> (nat \<times> string) \<times> store" where
  "dispatchPayment rt now req logId s =
     (let event = req_body req;
          status = normalizeStatus rt (txStatusRawOf event);
          orderAmount = orderAmountOf rt event
      in if \<not> truthyField (orderIdOf event)
         then (if req_dashboardTest req
               then ((200, ''ok''),
                     markWebhookLog now logId ''processed''
                       [(''note'', Put (FStr ''dashboard_test'')),
                        (''headers'', Put (FList (map (FStr \<circ> fst) (req_headers req))))] s)
               else ((400, ''missing orderId''),
                     markWebhookLog now logId ''failed''
                       [(''error'', Put (FStr ''missing_orderId''))] s))
         else
          (case Option.bind (orderIdOf event)
                  (\<lambda>orderId. queryFirst ''gatewayOrderId'' orderId (payments s)) of
             None \<Rightarrow> ((200, ''no payment record''),
                       markWebhookLog now logId ''processed''
                         [(''note'', Put (FStr ''no payment record''))] s)
           | Some (paymentId, paymentData) \<Rightarrow>
              (if statusIn status PAYMENT_SUCCESS_STATUSES
               then
                (let s1 = s\<lparr>payments := AList.update paymentId
                             (fsUpdate (paymentPaidData now event orderAmount paymentData) paymentData)
                             (payments s)\<rparr>
                 in case map_of paymentData ''bookingId'' of
                      Some (FStr bookingId) \<Rightarrow>
                        (if bookingId = []
                         then ((200, ''ok''),
                               markWebhookLog now logId ''processed''
                                 [(''status'', Put (FStr ''success''))] s1)
                         else ((200, ''ok''),
                               markWebhookLog now logId ''processed''
                                 [(''status'', Put (FStr ''success''))]
                                 (bookingPaid rt now orderAmount bookingId s1)))
                    | v \<Rightarrow>
                        (if truthyField v then ((500, ''server error''), s1)
                         else ((200, ''ok''),
                               markWebhookLog now logId ''processed''
                                 [(''status'', Put (FStr ''success''))] s1)))
               else if statusIn status PAYMENT_FAILURE_STATUSES
               then
                (let s1 = s\<lparr>payments := AList.update paymentId
                             (fsUpdate [(''status'', Put (FStr ''failed'')),
                                        (''releaseStatus'', Put (FStr ''failed'')),
                                        (''lastWebhook'', Put (FMap event)),
                                        (''updatedAt'', Put (FTime now))] paymentData)
                             (payments s)\<rparr>
                 in case map_of paymentData ''bookingId'' of
                      Some (FStr bookingId) \<Rightarrow>
                        (if bookingId = []
                         then ((200, ''failed''),
                               markWebhookLog now logId ''processed''
                                 [(''status'', Put (FStr ''failed''))] s1)
                         else
                          (case docUpdate bookingId
                                  [(''status'', Put (FStr ''payment_failed'')),
                                   (''updatedAt'', Put (FTime now))] (bookings s1) of
                             None \<Rightarrow> ((500, ''server error''), s1)
                           | Some bs \<Rightarrow>
                               ((200, ''failed''),
                                markWebhookLog now logId ''processed''
                                  [(''status'', Put (FStr ''failed''))]
                                  (sendNotification
                                     (Option.bind (map_of bs bookingId) (\<lambda>b. map_of b ''clientId''))
                                     ''payment_failed'' (paymentNotice orderAmount bookingId)
                                     (s1\<lparr>bookings := bs\<rparr>)))))
                    | v \<Rightarrow>
                        (if truthyField v then ((500, ''server error''), s1)
                         else ((200, ''failed''),
                               markWebhookLog now logId ''processed''
                                 [(''status'', Put (FStr ''failed''))] s1)))
               else
                ((200, ''unhandled''),
                 markWebhookLog now logId ''processed''
                   [(''status'', Put (FStr (case status of
                                              Some t \<Rightarrow> (if t = [] then ''unknown'' else t)
                                            | None \<Rightarrow> ''unknown'')))]
                   (s\<lparr>payments := AList.update paymentId
                        (fsUpdate [(''lastWebhook'', Put (FMap event)),
                                   (''updatedAt'', Put (FTime now))] paymentData)
                        (payments s)\<rparr>)))))"

definition handlePaymentWebhook ::
  "runtime \<Rightarrow> int \<Rightarrow> webhook_request \<Rightarrow> store \<Rightarrow> (nat \<times> string) \<times> store" where
  "handlePaymentWebhook rt now req s =
     (if req_method req = ''GET'' \<or> req_method req = ''HEAD'' then ((200, ''ok''), s)
      else if req_method req \<noteq> ''POST'' then ((405, ''method not allowed''), s)
      else if \<not> req_dashboardTest req \<and> \<not> req_signatureValid req
      then ((400, ''invalid signature''), s)
      else
       (case recordWebhook now (paymentEventId now (req_body req)) req ''cashfree:payment''
               (webhookLogs s) of
          None \<Rightarrow> ((500, ''server error''), s)
        | Some (duplicate, logId, logs) \<Rightarrow>
            (if duplicate then ((200, ''duplicate''), s)
             else dispatchPayment rt now req logId (s\<lparr>webhookLogs := logs\<rparr>))))"

text \<open>
  A signed success event for the sample order, and a runtime for documents that hold
  numbers as numbers and texts as strings, without calendar blocks.
\<close>

definition plainRuntime :: runtime where
  "plainRuntime =
     \<lparr>numberOfText = (\<lambda>t. None), textOfValue = (\<lambda>v. []), calendarBlockIds = (\<lambda>b. None)\<rparr>"

definition successEvent :: doc where
  "successEvent =
     [(''eventId'', FStr ''evt1''),
      (''data'', FMap
         [(''order'', FMap [(''order_id'', FStr ''order1''), (''order_amount'', FNum 20000)]),
          (''payment'', FMap [(''cf_payment_id'', FStr ''cf1''),
                              (''payment_status'', FStr ''SUCCESS''),
                              (''payment_amount'', FNum 20000)])])]"

definition successRequest :: webhook_request where
  "successRequest =
     \<lparr>req_method = ''POST'', req_headers = [(''x-webhook-signature'', FStr ''sig'')],
      req_rawBody = ''{}'', req_body = successEvent,
      req_signatureValid = True, req_dashboardTest = False\<rparr>"

definition pendingStore :: store where
  "pendingStore =
     \<lparr>bookings = [(''b1'', [(''clientId'', FStr ''client1''), (''artistId'', FStr ''artist1''),
                             (''status'', FStr ''pending_payment'')])],
      payments = [(''pay1'', [(''bookingId'', FStr ''b1''), (''gatewayOrderId'', FStr ''order1''),
                              (''amountExpected'', FNum 20000),
                              (''releaseStatus'', FStr ''held_pending'')])],
      webhookLogs = [],
      payout_transfers = [],
      disputes = [],
      notifications = []\<rparr>"

text \<open>The pending store after the first delivery of the success event at time 777.\<close>

definition deliveredStore :: store where
  "deliveredStore =
     \<lparr>bookings =
        [(''b1'', [(''clientId'', FStr ''client1''), (''artistId'', FStr ''artist1''),
                   (''status'', FStr ''paid''), (''paymentCapturedAt'', FTime 777),
                   (''updatedAt'', FTime 777), (''advancePaid'', FBool True),
                   (''advancePaidAt'', FTime 777), (''paidFull'', FBool True),
                   (''paidFullAt'', FTime 777), (''paymentStage'', FStr ''paid_full'')])],
      payments =
        [(''pay1'', [(''bookingId'', FStr ''b1''), (''gatewayOrderId'', FStr ''order1''),
                     (''amountExpected'', FNum 20000), (''releaseStatus'', FStr ''held''),
                     (''gatewayPaymentId'', FStr ''cf1''), (''amountPaid'', FNum 20000),
                     (''escrowHeld'', FBool True), (''status'', FStr ''paid''),
                     (''lastWebhook'', FMap successEvent), (''updatedAt'', FTime 777)])],
      webhookLogs =
        [(''evt1'', [(''eventId'', FStr ''evt1''), (''status'', FStr ''success''),
                     (''source'', FStr ''cashfree:payment''), (''receivedAt'', FTime 777),
                     (''rawBody'', FStr ''{}''),
                     (''headers'', FMap [(''x-webhook-signature'', FStr ''sig'')]),
                     (''attempts'', FNum 1), (''processedAt'', FTime 777)])],
      payout_transfers = [], disputes = [],
      notifications =
        [(Some (FStr ''client1''), ''payment_success'',
          [(''amount'', FNum 20000), (''bookingId'', FStr ''b1'')]),
         (Some (FStr ''artist1''), ''payment_success'',
          [(''amount'', FNum 20000), (''bookingId'', FStr ''b1'')])]\<rparr>"

text \<open>That store after the second delivery of the same event at time 888.\<close>

definition redeliveredStore :: store where
  "redeliveredStore =
     \<lparr>bookings =
        [(''b1'', [(''clientId'', FStr ''client1''), (''artistId'', FStr ''artist1''),
                   (''status'', FStr ''paid''), (''paymentCapturedAt'', FTime 888),
                   (''updatedAt'', FTime 888), (''advancePaid'', FBool True),
                   (''advancePaidAt'', FTime 888), (''paidFull'', FBool True),
                   (''paidFullAt'', FTime 888), (''paymentStage'', FStr ''paid_full'')])],
      payments =
        [(''pay1'', [(''bookingId'', FStr ''b1''), (''gatewayOrderId'', FStr ''order1''),
                     (''amountExpected'', FNum 20000), (''releaseStatus'', FStr ''held''),
                     (''gatewayPaymentId'', FStr ''cf1''), (''amountPaid'', FNum 20000),
                     (''escrowHeld'', FBool True), (''status'', FStr ''paid''),
                     (''lastWebhook'', FMap successEvent), (''updatedAt'', FTime 888)])],
      webhookLogs =
        [(''evt1'', [(''eventId'', FStr ''evt1''), (''status'', FStr ''success''),
                     (''source'', FStr ''cashfree:payment''), (''receivedAt'', FTime 888),
                     (''rawBody'', FStr ''{}''),
                     (''headers'', FMap [(''x-webhook-signature'', FStr ''sig'')]),
                     (''attempts'', FNum 2), (''processedAt'', FTime 888)])],
      payout_transfers = [], disputes = [],
      notifications =
        [(Some (FStr ''client1''), ''payment_success'',
          [(''amount'', FNum 20000), (''bookingId'', FStr ''b1'')]),
         (Some (FStr ''artist1''), ''payment_success'',
          [(''amount'', FNum 20000), (''bookingId'', FStr ''b1'')]),
         (Some (FStr ''client1''), ''payment_success'',
          [(''amount'', FNum 20000), (''bookingId'', FStr ''b1'')]),
         (Some (FStr ''artist1''), ''payment_success'',
          [(''amount'', FNum 20000), (''bookingId'', FStr ''b1'')])]\<rparr>"

section \<open>Payout worker (processPayoutJob)\<close>

record job =
  job_bookingId :: string
  job_payoutType :: string
  job_recipientId :: string
  job_amount :: rat
  job_bankDetails :: doc
  job_transferId :: string
  job_stageKey :: "string option"

text \<open>
  What the worker does to the outside, in the order in which it does it: the promo
  deduction, a request to the payout gateway (path, method and the body that is sent,
  \<open>None\<close> for a request without body), a write to the transfer map, and the update of the
  payment. A write carries whether it succeeded.
\<close>

datatype effect =
    PromoSpendCall string string rat
  | GatewayCall string fval "fval option"
  | TransferMapWrite string writedata bool
  | PaymentUpdate string writedata bool

text \<open>
  \<open>callPayout(path, {method = 'POST', body = undefined} = {})\<close>: the second argument is
  read as an options object. The method is its field \<open>method\<close>, or \<open>POST\<close> when it has
  none, and the body sent is its field \<open>body\<close> when that is truthy. The fields of a
  payload that is handed over in the place of the options are not sent.
\<close>

definition callPayout :: "string \<Rightarrow> doc \<Rightarrow> effect" where
  "callPayout path options =
     GatewayCall path
       (case map_of options ''method'' of Some m \<Rightarrow> m | None \<Rightarrow> FStr ''POST'')
       (if truthyField (map_of options ''body'') then map_of options ''body'' else None)"

text \<open>
  How the collaborators answer during one run: whether the beneficiary request succeeds,
  whether the two writes to the transfer map and the payment update succeed, and the body
  of the transfer response (\<open>None\<close> when the request fails).
\<close>

record answers =
  addBeneficiaryOk :: bool
  mapWriteOk :: bool
  transferResult :: "doc option"
  paymentUpdateOk :: bool
  mapUpdateOk :: bool

definition textOr :: "string \<Rightarrow> fval option \<Rightarrow> fval" where
  "textOr dflt v = (if truthyField v then the v else FStr dflt)"

definition beneficiaryPayload :: "string \<Rightarrow> doc \<Rightarrow> doc" where
  "beneficiaryPayload beneId bankDetails =
     [(''beneId'', FStr beneId),
      (''name'', textOr ''Recipient'' (map_of bankDetails ''name'')),
      (''email'', textOr [] (map_of bankDetails ''email'')),
      (''phone'', textOr [] (map_of bankDetails ''phone'')),
      (''bankDetails'', FMap
         [(''bankAccount'', orNull (map_of bankDetails ''accountNumber'')),
          (''ifsc'', orNull (map_of bankDetails ''ifsc'')),
          (''bankName'', textOr [] (map_of bankDetails ''bankName''))]),
      (''address'', FMap
         [(''address1'', textOr [] (map_of bankDetails ''address'')),
          (''city'', textOr [] (map_of bankDetails ''city'')),
          (''state'', textOr [] (map_of bankDetails ''state'')),
          (''pincode'', textOr [] (map_of bankDetails ''pincode''))])]"

definition stageKeyValue :: "string option \<Rightarrow> fval" where
  "stageKeyValue k = (case k of Some t \<Rightarrow> (if t = [] then FNull else FStr t) | None \<Rightarrow> FNull)"

text \<open>The entry of the transfer map, written with status \<open>requested\<close>.\<close>

definition transferMapData :: "int \<Rightarrow> job \<Rightarrow> string \<Rightarrow> writedata" where
  "transferMapData now j paymentId =
     [(''transferId'', Put (FStr (job_transferId j))),
      (''bookingId'', Put (FStr (job_bookingId j))),
      (''paymentId'', Put (FStr paymentId)),
      (''payoutType'', Put (FStr (job_payoutType j))),
      (''recipientId'', Put (FStr (job_recipientId j))),
      (''stageKey'', Put (stageKeyValue (job_stageKey j))),
      (''amount'', Put (FNum (job_amount j))),
      (''status'', Put (FStr ''requested'')),
      (''createdAt'', Put (FTime now)),
      (''updatedAt'', Put (FTime now))]"

text \<open>The transfer payload; its amount is \<open>amount.toString()\<close>.\<close>

definition transferPayload :: "runtime \<Rightarrow> job \<Rightarrow> string \<Rightarrow> doc" where
  "transferPayload rt j beneId =
     [(''beneId'', FStr beneId),
      (''amount'', FStr (textOfValue rt (FNum (job_amount j)))),
      (''transferId'', FStr (job_transferId j)),
      (''remarks'', FStr (job_payoutType j @ '' payout''
          @ (case job_stageKey j of
               Some t \<Rightarrow> (if t = [] then [] else '' ('' @ t @ '')'') | None \<Rightarrow> [])
          @ '' for booking '' @ job_bookingId j))]"

definition payoutUpdate :: "int \<Rightarrow> job \<Rightarrow> doc \<Rightarrow> doc" where
  "payoutUpdate now j res =
     [(''payoutId'', textOr (job_transferId j) (map_of res ''transferId'')),
      (''amount'', FNum (job_amount j)),
      (''status'', FStr ''initiated''),
      (''cfReferenceId'', orNull (firstTruthyVal [map_of res ''referenceId'',
                                                   map_of res ''cfReferenceId''])),
      (''initiatedAt'', FTime now)]"

text \<open>
  The attempt that the payment update hands to \<open>arrayUnion\<close>. Its field \<open>timestamp\<close> is
  the sentinel \<open>FieldValue.serverTimestamp()\<close>. Firestore takes that sentinel as the value of
  a field of the written data only: inside an element of \<open>arrayUnion\<close> it is refused, and
  the update throws before it writes anything.
\<close>

datatype element_value = Plain fval | ServerTimestamp

definition attemptElement :: "job \<Rightarrow> (string \<times> element_value) list" where
  "attemptElement j =
     [(''attemptId'', Plain (FStr (job_transferId j))),
      (''stageKey'', Plain (stageKeyValue (job_stageKey j))),
      (''timestamp'', ServerTimestamp),
      (''status'', Plain (FStr ''initiated'')),
      (''amount'', Plain (FNum (job_amount j)))]"

definition elementAccepted :: "(string \<times> element_value) list \<Rightarrow> bool" where
  "elementAccepted e = (ServerTimestamp \<notin> snd ` set e)"

definition elementValue :: "int \<Rightarrow> (string \<times> element_value) list \<Rightarrow> fval" where
  "elementValue now e =
     FMap (map (\<lambda>(k, v). (k, case v of Plain x \<Rightarrow> x | ServerTimestamp \<Rightarrow> FTime now)) e)"

definition paymentPayoutData :: "int \<Rightarrow> job \<Rightarrow> doc \<Rightarrow> writedata" where
  "paymentPayoutData now j res =
     [(''payouts.'' @ job_payoutType j, Put (FMap (payoutUpdate now j res))),
      (''payoutAttempts.'' @ job_payoutType j,
         ArrayUnion [elementValue now (attemptElement j)]),
      (''updatedAt'', Put (FTime now))]"

definition transferInitiatedData :: "int \<Rightarrow> job \<Rightarrow> doc \<Rightarrow> writedata" where
  "transferInitiatedData now j res =
     [(''status'', Put (FStr ''initiated'')),
      (''payoutId'', Put (textOr (job_transferId j) (map_of res ''transferId''))),
      (''cfReferenceId'', Put (orNull (firstTruthyVal [map_of res ''referenceId'',
                                                       map_of res ''cfReferenceId'']))),
      (''updatedAt'', Put (FTime now))]"

text \<open>The promo deduction is tried for an artist only; its failure is caught and logged.\<close>

definition promoCalls :: "job \<Rightarrow> effect list" where
  "promoCalls j =
     (if job_payoutType j = ''artist''
      then [PromoSpendCall (job_recipientId j) (job_bookingId j) (job_amount j)] else [])"

text \<open>
  \<open>processPayoutJob\<close>: how the call ends and what it did, in order. A failed gateway
  request throws and ends the run; a failed write to the transfer map is caught and
  logged, and the run goes on. The update of the payment is written only if Firestore
  accepts its data and the write succeeds; otherwise it throws and ends the run.
\<close>

definition processPayoutJob ::
  "runtime \<Rightarrow> int \<Rightarrow> answers \<Rightarrow> job \<Rightarrow> store \<Rightarrow> outcome \<times> effect list" where
  "processPayoutJob rt now a j s =
     (case queryFirst ''bookingId'' (FStr (job_bookingId j)) (payments s) of
        None \<Rightarrow> (Threw (''No payment found for booking '' @ job_bookingId j), [])
      | Some (paymentId, paymentData) \<Rightarrow>
          (let promo = promoCalls j;
               beneId = job_payoutType j @ ''_'' @ job_recipientId j;
               fx1 = promo @ [callPayout ''/payout/v1/addBeneficiary''
                                (beneficiaryPayload beneId (job_bankDetails j))]
           in if \<not> addBeneficiaryOk a then (Threw ''Cashfree payout error'', fx1)
              else
               (let fx2 = fx1 @ [TransferMapWrite (job_transferId j)
                                   (transferMapData now j paymentId) (mapWriteOk a),
                                 callPayout ''/payout/v1/requestTransfer''
                                   (transferPayload rt j beneId)]
                in case transferResult a of
                     None \<Rightarrow> (Threw ''Cashfree payout error'', fx2)
                   | Some res \<Rightarrow>
                       (let written = (elementAccepted (attemptElement j) \<and> paymentUpdateOk a);
                            fx3 = fx2 @ [PaymentUpdate paymentId (paymentPayoutData now j res)
                                           written]
                        in if \<not> written then (Threw ''payment update failed'', fx3)
                           else (Returned,
                                 fx3 @ [TransferMapWrite (job_transferId j)
                                          (transferInitiatedData now j res) (mapUpdateOk a)])))))"

text \<open>
  The store after a sequence of effects. The calls to the gateway and to the promo
  service do not touch it. A crash after the first \<open>n\<close> effects of a run leaves the store
  after \<open>take n\<close> of them.
\<close>

fun applyEffect :: "effect \<Rightarrow> store \<Rightarrow> store" where
  "applyEffect (PromoSpendCall u b amt) s = s"
| "applyEffect (GatewayCall path method body) s = s"
| "applyEffect (TransferMapWrite ident wd ok) s =
     (if ok then s\<lparr>payout_transfers := docSetMerge ident wd (payout_transfers s)\<rparr> else s)"
| "applyEffect (PaymentUpdate ident wd ok) s =
     (if ok then (case docUpdate ident wd (payments s) of
                    Some ps \<Rightarrow> s\<lparr>payments := ps\<rparr> | None \<Rightarrow> s)
      else s)"

definition runEffects :: "effect list \<Rightarrow> store \<Rightarrow> store" where
  "runEffects fx s = fold applyEffect fx s"

text \<open>A payout job of the first stage for the sample booking, and a run in which all goes well.\<close>

definition sampleJob :: job where
  "sampleJob =
     \<lparr>job_bookingId = ''b1'', job_payoutType = ''vendor'', job_recipientId = ''vendor1'',
      job_amount = 9500,
      job_bankDetails = [(''accountNumber'', FStr ''000111222333''), (''ifsc'', FStr ''HDFC0001234''),
                         (''name'', FStr ''Vendor One'')],
      job_transferId = ''payout_vendor_stage1_b1_1_endor1'',
      job_stageKey = Some ''stage1''\<rparr>"

definition allWell :: answers where
  "allWell =
     \<lparr>addBeneficiaryOk = True, mapWriteOk = True,
      transferResult = Some [(''referenceId'', FStr ''ref1'')],
      paymentUpdateOk = True, mapUpdateOk = True\<rparr>"

section \<open>Rounding\<close>

lemma mathRound_int: "mathRound (of_int n) = n"
  unfolding mathRound_def by linarith

lemma mathRound_nonneg: "0 \<le> x \<Longrightarrow> 0 \<le> mathRound x"
  by (simp add: mathRound_def)

lemma roundInr_int: "roundInr (Num (Fin (of_int n))) = n"
  by (cases "n = 0") (simp_all add: roundInr_def mathRound_int mathRound_int[of 0, simplified])

lemma half_floor: "\<lfloor>of_int n * (1 / 2 :: rat)\<rfloor> = n div 2"
  using floor_divide_of_int_eq[of n 2, where 'a = rat] by simp

lemma mathRound_scaled_le:
  assumes "0 \<le> g" and "0 \<le> r" and "r \<le> 1"
  shows "mathRound (of_int g * r) \<le> g"
proof (cases "g = 0")
  case True
  then show ?thesis by (simp add: mathRound_def)
next
  case False
  have "of_int g * r \<le> (of_int g :: rat)"
    using assms by (simp add: mult_left_le)
  then have "mathRound (of_int g * r) \<le> mathRound (of_int g)"
    unfolding mathRound_def by (intro floor_mono) simp
  then show ?thesis by (simp only: mathRound_int)
qed

section \<open>The stage split\<close>

lemma stageOfKey_scheduler_keys:
  "stageOfKey ''stage1'' = Stage1" "stageOfKey ''stage2'' = Stage2"
  by (simp_all add: stageOfKey_def)

lemma stageSplit_grossTotal: "grossTotal (stageSplit pol stg amount panOk tf) = roundInr amount"
  by (simp add: stageSplit_def Let_def)

lemma stageSplit_totals_stage_free:
  "tdsTotal (stageSplit pol stg amount panOk tf) = tdsTotal (stageSplit pol stg' amount panOk tf)"
  "tcsPlatformCostTotal (stageSplit pol stg amount panOk tf) =
     tcsPlatformCostTotal (stageSplit pol stg' amount panOk tf)"
  by (simp_all add: stageSplit_def Let_def)

lemma stageSplit_stage1:
  "stageGross (stageSplit pol Stage1 amount panOk tf) =
     \<lfloor>of_int (grossTotal (stageSplit pol Stage1 amount panOk tf)) * (1 / 2 :: rat)\<rfloor>"
  "stageTds (stageSplit pol Stage1 amount panOk tf) =
     \<lfloor>of_int (tdsTotal (stageSplit pol Stage1 amount panOk tf)) * (1 / 2 :: rat)\<rfloor>"
  "stageTcsPlatformCost (stageSplit pol Stage1 amount panOk tf) =
     \<lfloor>of_int (tcsPlatformCostTotal (stageSplit pol Stage1 amount panOk tf)) * (1 / 2 :: rat)\<rfloor>"
  by (simp_all add: stageSplit_def Let_def)

lemma stageSplit_stage2:
  "stageGross (stageSplit pol Stage2 amount panOk tf) =
     grossTotal (stageSplit pol Stage2 amount panOk tf) - stageGross (stageSplit pol Stage1 amount panOk tf)"
  "stageTds (stageSplit pol Stage2 amount panOk tf) =
     tdsTotal (stageSplit pol Stage2 amount panOk tf) - stageTds (stageSplit pol Stage1 amount panOk tf)"
  "stageTcsPlatformCost (stageSplit pol Stage2 amount panOk tf) =
     tcsPlatformCostTotal (stageSplit pol Stage2 amount panOk tf)
       - stageTcsPlatformCost (stageSplit pol Stage1 amount panOk tf)"
  by (simp_all add: stageSplit_def Let_def)

text \<open>
  C1. For a gross amount \<open>G\<close> between 0 and 10,000,000, the allocation row computed for
  stage 1 carries \<open>floor (G * 0.5)\<close> and the row computed for stage 2 carries the remainder
  \<open>G - floor (G * 0.5)\<close>, so the two stage amounts add up to \<open>G\<close>. The withheld TDS and the
  platform's TCS cost are split the same way: stage 1 takes the floor of half the total,
  and the two stages add up to the total. The two rows are computed from the same item
  amount, PAN flag, turnover fields and policy.
\<close>

theorem stage_split_exact:
  fixes G :: int
  assumes "0 \<le> G" and "G \<le> 10000000"
  shows "stageGross (stageSplit pol Stage1 (Num (Fin (of_int G))) panOk tf)
           = \<lfloor>of_int G * (1 / 2 :: rat)\<rfloor>
       \<and> stageGross (stageSplit pol Stage2 (Num (Fin (of_int G))) panOk tf)
           = G - stageGross (stageSplit pol Stage1 (Num (Fin (of_int G))) panOk tf)
       \<and> stageGross (stageSplit pol Stage1 (Num (Fin (of_int G))) panOk tf)
           + stageGross (stageSplit pol Stage2 (Num (Fin (of_int G))) panOk tf) = G
       \<and> stageTds (stageSplit pol Stage1 (Num (Fin (of_int G))) panOk tf)
           = \<lfloor>of_int (tdsTotal (stageSplit pol Stage1 (Num (Fin (of_int G))) panOk tf))
                * (1 / 2 :: rat)\<rfloor>
       \<and> stageTds (stageSplit pol Stage1 (Num (Fin (of_int G))) panOk tf)
           + stageTds (stageSplit pol Stage2 (Num (Fin (of_int G))) panOk tf)
           = tdsTotal (stageSplit pol Stage1 (Num (Fin (of_int G))) panOk tf)
       \<and> stageTcsPlatformCost (stageSplit pol Stage1 (Num (Fin (of_int G))) panOk tf)
           = \<lfloor>of_int (tcsPlatformCostTotal (stageSplit pol Stage1 (Num (Fin (of_int G))) panOk tf))
                * (1 / 2 :: rat)\<rfloor>
       \<and> stageTcsPlatformCost (stageSplit pol Stage1 (Num (Fin (of_int G))) panOk tf)
           + stageTcsPlatformCost (stageSplit pol Stage2 (Num (Fin (of_int G))) panOk tf)
           = tcsPlatformCostTotal (stageSplit pol Stage1 (Num (Fin (of_int G))) panOk tf)"
proof -
  let ?a1 = "stageSplit pol Stage1 (Num (Fin (of_int G))) panOk tf"
  let ?a2 = "stageSplit pol Stage2 (Num (Fin (of_int G))) panOk tf"
  have g: "grossTotal ?a1 = G" "grossTotal ?a2 = G"
    by (simp_all add: stageSplit_grossTotal roundInr_int)
  have t: "tdsTotal ?a2 = tdsTotal ?a1" "tcsPlatformCostTotal ?a2 = tcsPlatformCostTotal ?a1"
    by (rule stageSplit_totals_stage_free)+
  note s1 = stageSplit_stage1 [of pol "Num (Fin (of_int G))" panOk tf]
  note s2 = stageSplit_stage2 [of pol "Num (Fin (of_int G))" panOk tf]
  show ?thesis
    using g t s1 s2 by simp
qed

text \<open>The instance \<open>G = 101\<close>: stage 1 carries 50 and stage 2 carries 51.\<close>

theorem stage_split_exact_witness:
  "(0::int) \<le> 101 \<and> (101::int) \<le> 10000000
   \<and> stageGross (stageSplit defaultPolicy Stage1 (Num (Fin 101)) True
        [Undefined, Undefined, Undefined, Undefined, Undefined,
         Undefined, Undefined, Undefined, Undefined]) = 50
   \<and> stageGross (stageSplit defaultPolicy Stage2 (Num (Fin 101)) True
        [Undefined, Undefined, Undefined, Undefined, Undefined,
         Undefined, Undefined, Undefined, Undefined]) = 51
   \<and> stageGross (stageSplit defaultPolicy Stage1 (Num (Fin 101)) True
        [Undefined, Undefined, Undefined, Undefined, Undefined,
         Undefined, Undefined, Undefined, Undefined])
     + stageGross (stageSplit defaultPolicy Stage2 (Num (Fin 101)) True
        [Undefined, Undefined, Undefined, Undefined, Undefined,
         Undefined, Undefined, Undefined, Undefined]) = 101"
  using stage_split_exact [of 101 defaultPolicy True
      "[Undefined, Undefined, Undefined, Undefined, Undefined,
        Undefined, Undefined, Undefined, Undefined]"] half_floor [of 101]
  by simp

section \<open>The distribution calculator\<close>

lemma specPlatformFee_code:
  "platformFee (computeDistribution pol amt) = specPlatformFee amt"
  by (simp add: computeDistribution_def Let_def specPlatformFee_def tieredMinimum_def)

lemma computeDistribution_fields:
  "ecoTcsWithheld (computeDistribution pol amt)
     = (if ECO_TCS_BORNE_BY_PLATFORM pol then 0
        else max 0 (mathRound (amt * ecoTcsRateOf (ECO_TCS_RATE pol))))"
  "ecoTcsPlatformCost (computeDistribution pol amt)
     = (if ECO_TCS_BORNE_BY_PLATFORM pol
        then max 0 (mathRound (amt * ecoTcsRateOf (ECO_TCS_RATE pol))) else 0)"
  "artistGross (computeDistribution pol amt) = max 0 amt"
  "artistNet (computeDistribution pol amt)
     = (if ECO_TCS_BORNE_BY_PLATFORM pol then max 0 amt
        else max 0 (max 0 amt - of_int (max 0 (mathRound (amt * ecoTcsRateOf (ECO_TCS_RATE pol))))))"
  "gstOnPlatformFee (computeDistribution pol amt)
     = mathRound (of_int (platformFee (computeDistribution pol amt)) * (18 / 100))"
  unfolding computeDistribution_def Let_def by simp_all

text \<open>
  C2. \<open>computeDistribution\<close> is a function of the policy and the gross amount alone: it
  reads and writes no state, so two calls on the same inputs are the same value. For a
  gross amount of at least 0 and a configured ECO-TCS rate \<open>r\<close> of at least 0, the platform
  fee is the larger of the bracket minimum (999 below 20,000, 1999 below 50,000, none from
  50,000) and \<open>round (gross * 0.099)\<close>; the GST is \<open>round (platformFee * 0.18)\<close>; the
  ECO-TCS amount is \<open>round (gross * r)\<close>; and when the platform bears it, it is booked as
  platform cost, nothing is withheld, and the supplier's net equals the supplier's gross.
\<close>

theorem computeDistribution_formulas:
  assumes "0 \<le> amt" and "ECO_TCS_RATE pol = Fin r" and "0 \<le> r"
  shows "platformFee (computeDistribution pol amt)
           = max (tieredMinimum amt) (mathRound (amt * (99 / 1000)))
       \<and> gstOnPlatformFee (computeDistribution pol amt)
           = mathRound (of_int (platformFee (computeDistribution pol amt)) * (18 / 100))
       \<and> ecoTcsWithheld (computeDistribution pol amt)
           + ecoTcsPlatformCost (computeDistribution pol amt) = mathRound (amt * r)
       \<and> (ECO_TCS_BORNE_BY_PLATFORM pol \<longrightarrow>
             ecoTcsPlatformCost (computeDistribution pol amt) = mathRound (amt * r)
           \<and> ecoTcsWithheld (computeDistribution pol amt) = 0
           \<and> artistNet (computeDistribution pol amt) = artistGross (computeDistribution pol amt))"
proof -
  have nn: "0 \<le> mathRound (amt * r)"
    using assms by (intro mathRound_nonneg mult_nonneg_nonneg)
  have fee: "platformFee (computeDistribution pol amt)
           = max (tieredMinimum amt) (mathRound (amt * (99 / 1000)))"
    using specPlatformFee_code [of pol amt] by (simp add: specPlatformFee_def)
  have rate: "ecoTcsRateOf (ECO_TCS_RATE pol) = r"
    using assms by (simp add: ecoTcsRateOf_def)
  have gst: "gstOnPlatformFee (computeDistribution pol amt)
           = mathRound (of_int (platformFee (computeDistribution pol amt)) * (18 / 100))"
    by (rule computeDistribution_fields)
  have tcs: "ecoTcsWithheld (computeDistribution pol amt)
           + ecoTcsPlatformCost (computeDistribution pol amt) = mathRound (amt * r)"
    using nn by (simp add: computeDistribution_fields rate)
  have borne: "ECO_TCS_BORNE_BY_PLATFORM pol \<longrightarrow>
             ecoTcsPlatformCost (computeDistribution pol amt) = mathRound (amt * r)
           \<and> ecoTcsWithheld (computeDistribution pol amt) = 0
           \<and> artistNet (computeDistribution pol amt) = artistGross (computeDistribution pol amt)"
    using nn by (simp add: computeDistribution_fields rate)
  from fee gst tcs borne show ?thesis by blast
qed

text \<open>The instance \<open>distribute(11000)\<close> under the default policy.\<close>

theorem computeDistribution_formulas_witness:
  "(0::rat) \<le> 11000 \<and> ECO_TCS_RATE defaultPolicy = Fin (5 / 1000) \<and> (0::rat) \<le> 5 / 1000
   \<and> ECO_TCS_BORNE_BY_PLATFORM defaultPolicy
   \<and> platformFee (computeDistribution defaultPolicy 11000) = 1089
   \<and> gstOnPlatformFee (computeDistribution defaultPolicy 11000) = 196
   \<and> ecoTcsPlatformCost (computeDistribution defaultPolicy 11000) = 55
   \<and> artistNet (computeDistribution defaultPolicy 11000) = 11000"
proof -
  have r: "ECO_TCS_RATE defaultPolicy = Fin (5 / 1000)" and b: "ECO_TCS_BORNE_BY_PLATFORM defaultPolicy"
    by (simp_all add: defaultPolicy_def)
  have m1: "mathRound (11000 * (99 / 1000)) = 1089" "mathRound (1089 * (18 / 100)) = 196"
    "mathRound (11000 * (5 / 1000)) = 55"
    unfolding mathRound_def by (simp_all add: floor_unique)
  have g: "artistGross (computeDistribution defaultPolicy 11000) = 11000"
    by (simp add: computeDistribution_fields)
  show ?thesis
    using computeDistribution_formulas [of 11000 defaultPolicy "5 / 1000", OF _ r] r b m1 g
    by (simp add: tieredMinimum_def)
qed

section \<open>TDS withholding\<close>

lemma computeTds_rate_table:
  "tds_rate (computeTdsForPayout sf pv ft) =
     (if pv \<noteq> Bool True then 5 / 100
      else case parseNumber ft of None \<Rightarrow> 1 / 1000
           | Some t \<Rightarrow> if t > 500000 then 1 / 1000 else 0)"
  by (simp add: computeTdsForPayout_def Let_def TDS_RATE_NO_PAN_def TDS_RATE_WITH_PAN_def
      TDS_FY_TURNOVER_EXEMPT_LIMIT_def split: option.splits)

lemma computeTds_rate_range:
  "0 \<le> tds_rate (computeTdsForPayout sf pv ft) \<and> tds_rate (computeTdsForPayout sf pv ft) \<le> 1"
  by (simp add: computeTds_rate_table split: option.splits)

lemma roundInr_fin: "roundInr (Num (Fin q)) = mathRound q"
  using mathRound_int [of 0] by (cases "q = 0") (simp_all add: roundInr_def)

lemma computeTds_amount_eq:
  "tds_amount (computeTdsForPayout sf pv ft) =
     max 0 (mathRound (of_int (max 0 (roundInr sf)) * tds_rate (computeTdsForPayout sf pv ft)))"
  unfolding computeTdsForPayout_def Let_def roundInr_fin
  by (simp only: split_def fst_conv snd_conv tds.simps if_distrib [of fst] if_distrib [of snd]
      split: if_splits)

text \<open>
  The withheld amount lies between 0 and the clamped, rounded service fee, whatever the
  three arguments are.
\<close>

lemma computeTds_amount_bounds:
  "0 \<le> tds_amount (computeTdsForPayout sf pv ft)
   \<and> tds_amount (computeTdsForPayout sf pv ft) \<le> max 0 (roundInr sf)"
  using mathRound_scaled_le [of "max 0 (roundInr sf)" "tds_rate (computeTdsForPayout sf pv ft)"]
    computeTds_rate_range [of sf pv ft]
  by (simp add: computeTds_amount_eq)

text \<open>
  C10. The rate is meant to be 0.1 percent when the PAN is verified and the turnover is
  unknown. \<open>deriveFyTurnover\<close> reports an unknown turnover as \<open>null\<close> (here: none of the
  nine fields is set), and \<open>releasePayoutNow\<close> hands that value on. \<open>parseNumber\<close> reads
  \<open>null\<close> as the number 0, so \<open>computeTdsForPayout\<close> takes the turnover to be known and
  below the limit: for a service fee of 100,000 it withholds nothing, with the reason
  \<open>exempt_turnover\<close>. The branch \<open>turnover_unknown_default_tds\<close> is taken for
  \<open>undefined\<close>, where the same fee gives 0.1 percent, that is 100.
\<close>

theorem computeTds_null_turnover_exempt:
  "deriveFyTurnover [Undefined, Undefined, Undefined, Undefined, Undefined,
                     Undefined, Undefined, Undefined, Undefined] = Null
   \<and> tds_rate (computeTdsForPayout (Num (Fin 100000)) (Bool True) Null) = 0
   \<and> tds_amount (computeTdsForPayout (Num (Fin 100000)) (Bool True) Null) = 0
   \<and> tds_reason (computeTdsForPayout (Num (Fin 100000)) (Bool True) Null) = ''exempt_turnover''
   \<and> tds_turnover (computeTdsForPayout (Num (Fin 100000)) (Bool True) Null) = Some 0
   \<and> tds_rate (computeTdsForPayout (Num (Fin 100000)) (Bool True) Undefined) = 1 / 1000
   \<and> tds_amount (computeTdsForPayout (Num (Fin 100000)) (Bool True) Undefined) = 100"
proof -
  have m: "mathRound 0 = 0" "mathRound 100000 = 100000" "mathRound 100 = 100"
    using mathRound_int [of 0] mathRound_int [of 100000] mathRound_int [of 100] by simp_all
  show ?thesis
    by (simp add: computeTdsForPayout_def Let_def parseNumber_def roundInr_def m
        TDS_RATE_NO_PAN_def TDS_RATE_WITH_PAN_def TDS_FY_TURNOVER_EXEMPT_LIMIT_def)
qed

section \<open>The identity gate\<close>

lemma splitOn_nonempty: "splitOn d s \<noteq> []"
  by (induction s) (auto split: list.splits)

lemma splitOn_has_token:
  "\<exists>c\<in>set s. c \<noteq> d \<Longrightarrow> \<exists>t\<in>set (splitOn d s). t \<noteq> []"
proof (induction s)
  case Nil
  then show ?case by simp
next
  case (Cons a s)
  show ?case
  proof (cases "a = d")
    case True
    with Cons show ?thesis by auto
  next
    case False
    then show ?thesis by (auto split: list.splits)
  qed
qed

lemma trim_has_nonspace:
  assumes "trim s \<noteq> []"
  shows "\<exists>c\<in>set (trim s). \<not> isWhitespace c"
proof -
  let ?v = "dropWhile isWhitespace (rev (dropWhile isWhitespace s))"
  from assms have ne: "?v \<noteq> []" by (simp add: trim_def)
  then have "\<not> isWhitespace (hd ?v)" by (rule hd_dropWhile)
  moreover from ne have "hd ?v \<in> set ?v" by simp
  ultimately show ?thesis by (auto simp: trim_def)
qed

lemma space_is_whitespace: "isWhitespace (CHR '' '')"
  by (simp add: isWhitespace_def)

lemma tokenSet_set: "set (tokenSet a) = {t \<in> set (splitOn (CHR '' '') a). t \<noteq> []}"
  by (auto simp: tokenSet_def)

lemma tokenSet_length: "length (tokenSet a) = card {t \<in> set (splitOn (CHR '' '') a). t \<noteq> []}"
  using tokenSet_set [of a] by (simp add: tokenSet_def length_remdups_card_conv)

lemma tokenSet_distinct: "distinct (tokenSet a)"
  by (simp add: tokenSet_def)

lemma tokenSet_overlap:
  "length (filter (\<lambda>token. token \<in> set (tokenSet b)) (tokenSet a))
     = card (set (tokenSet a) \<inter> set (tokenSet b))"
proof -
  have "length (filter (\<lambda>token. token \<in> set (tokenSet b)) (tokenSet a))
          = card ({x. x \<in> set (tokenSet b)} \<inter> set (tokenSet a))"
    using tokenSet_distinct by (rule distinct_length_filter)
  also have "{x. x \<in> set (tokenSet b)} \<inter> set (tokenSet a) = set (tokenSet a) \<inter> set (tokenSet b)"
    by auto
  finally show ?thesis .
qed

lemma normalized_tokenSet_nonempty:
  assumes "normalizeIdentityName v \<noteq> []"
  shows "tokenSet (normalizeIdentityName v) \<noteq> []"
proof -
  obtain c where c: "c \<in> set (normalizeIdentityName v)" "\<not> isWhitespace c"
    using trim_has_nonspace assms unfolding normalizeIdentityName_def by blast
  then have "c \<noteq> CHR '' ''" using space_is_whitespace by auto
  with c(1) have "\<exists>t\<in>set (splitOn (CHR '' '') (normalizeIdentityName v)). t \<noteq> []"
    by (intro splitOn_has_token) blast
  then have "set (tokenSet (normalizeIdentityName v)) \<noteq> {}"
    by (auto simp: tokenSet_set)
  then show ?thesis by auto
qed

lemma tokensOf_tokenSet: "tokensOf name = set (tokenSet (normalizeIdentityName name))"
  by (simp add: tokensOf_def tokenSet_set)

lemma card_tokensOf: "card (tokensOf name) = length (tokenSet (normalizeIdentityName name))"
  by (simp add: tokensOf_def tokenSet_length)

lemma mathRound_100: "mathRound 100 = 100"
  using mathRound_int [of 100] by simp

lemma similarity_formula:
  "identitySimilarityPercent left right =
     (if normalizeIdentityName left = [] \<or> normalizeIdentityName right = [] then 0
      else specSimilarityPercent left right)"
proof (cases "normalizeIdentityName left = [] \<or> normalizeIdentityName right = []")
  case True
  then show ?thesis by (auto simp: identitySimilarityPercent_def)
next
  case False
  let ?a = "normalizeIdentityName left" and ?b = "normalizeIdentityName right"
  from False have na: "tokenSet ?a \<noteq> []" and nb: "tokenSet ?b \<noteq> []"
    using normalized_tokenSet_nonempty by auto
  show ?thesis
  proof (cases "?a = ?b")
    case True
    have pos: "0 < card (tokensOf left)"
      using na by (simp add: card_tokensOf)
    have "tokensOf left = tokensOf right"
      using True by (simp add: tokensOf_def)
    then have "specSimilarityPercent left right = mathRound 100"
      using pos by (simp add: specSimilarityPercent_def)
    with True False show ?thesis
      by (simp add: identitySimilarityPercent_def mathRound_100)
  next
    case neq: False
    have ov: "length (filter (\<lambda>token. token \<in> set (tokenSet ?b)) (tokenSet ?a))
                = card (tokensOf left \<inter> tokensOf right)"
      by (simp only: tokenSet_overlap tokensOf_tokenSet)
    have len: "length (tokenSet ?a) = card (tokensOf left)" "length (tokenSet ?b) = card (tokensOf right)"
      by (simp_all only: card_tokensOf)
    have "identitySimilarityPercent left right =
            mathRound (2 * rat_of_nat (card (tokensOf left \<inter> tokensOf right)) /
              rat_of_nat (card (tokensOf left) + card (tokensOf right)) * 100)"
      using neq False na nb by (simp add: identitySimilarityPercent_def Let_def ov len)
    also have "\<dots> = specSimilarityPercent left right"
      by (simp add: specSimilarityPercent_def)
    finally show ?thesis using False by simp
  qed
qed

lemma identical_names_100:
  "normalizeIdentityName name \<noteq> [] \<Longrightarrow> identitySimilarityPercent name name = 100"
  by (simp add: identitySimilarityPercent_def)

lemma bestMatch_fst:
  "fst (bestMatch reg items (b, s)) = fold max (scoresOf reg items) b"
proof (induction items arbitrary: b s)
  case Nil
  then show ?case by (simp add: scoresOf_def)
next
  case (Cons it items)
  obtain source v where it: "it = (source, v)" by (cases it)
  show ?case
    using Cons.IH [of "identitySimilarityPercent reg v" "Some source"] Cons.IH [of b s]
    by (simp add: it scoresOf_def Let_def max_def)
qed

lemma fold_max_ge: "b \<le> fold max (xs :: int list) b"
proof (induction xs arbitrary: b)
  case Nil
  then show ?case by simp
next
  case (Cons x xs)
  have "b \<le> max x b" by simp
  also have "\<dots> \<le> fold max xs (max x b)" by (rule Cons.IH)
  finally show ?case by simp
qed

lemma bestMatch_snd:
  "snd (bestMatch reg items (b, s)) =
     (if fold max (scoresOf reg items) b = b then s
      else map_option fst
        (find (\<lambda>(source, v). identitySimilarityPercent reg v = fold max (scoresOf reg items) b) items))"
proof (induction items arbitrary: b s)
  case Nil
  then show ?case by (simp add: scoresOf_def)
next
  case (Cons it items)
  obtain source v where it: "it = (source, v)" by (cases it)
  let ?sc = "identitySimilarityPercent reg v"
  show ?case
  proof (cases "?sc > b")
    case True
    then have m: "max ?sc b = ?sc" by simp
    have ge: "?sc \<le> fold max (scoresOf reg items) ?sc" by (rule fold_max_ge)
    with True have ne: "fold max (scoresOf reg items) ?sc \<noteq> b" by simp
    show ?thesis
      using Cons.IH [of ?sc "Some source"] True ne
      by (auto simp: it scoresOf_def Let_def m)
  next
    case False
    then have m: "max ?sc b = b" by simp
    have ge: "b \<le> fold max (scoresOf reg items) b" by (rule fold_max_ge)
    show ?thesis
      using Cons.IH [of b s] False ge
      by (auto simp: it scoresOf_def Let_def m)
  qed
qed


lemma fold_max_mem: "x \<in> set xs \<Longrightarrow> x \<le> fold max (xs :: int list) b"
proof (induction xs arbitrary: b)
  case Nil
  then show ?case by simp
next
  case (Cons y ys)
  show ?case
  proof (cases "x = y")
    case True
    have "x \<le> max y b" using True by simp
    also have "\<dots> \<le> fold max ys (max y b)" by (rule fold_max_ge)
    finally show ?thesis by simp
  next
    case False
    with Cons.prems have "x \<in> set ys" by simp
    then show ?thesis using Cons.IH by simp
  qed
qed

lemma geNum_mono: "geNum x t \<Longrightarrow> x \<le> y \<Longrightarrow> geNum y t"
  by (cases t) auto

lemma set_collapseWs:
  "c \<in> set (collapseWs inRun s) \<Longrightarrow> c = CHR '' '' \<or> (c \<in> set s \<and> \<not> isWhitespace c)"
  by (induction s arbitrary: inRun) (auto split: if_splits)

lemma set_trim: "set (trim s) \<subseteq> set s"
proof
  fix x
  assume "x \<in> set (trim s)"
  then have "x \<in> set (dropWhile isWhitespace (rev (dropWhile isWhitespace s)))"
    by (simp add: trim_def)
  then have "x \<in> set (rev (dropWhile isWhitespace s))" by (rule set_dropWhileD)
  then have "x \<in> set (dropWhile isWhitespace s)" by simp
  then show "x \<in> set s" by (rule set_dropWhileD)
qed

lemma splitOn_token_chars:
  "t \<in> set (splitOn d s) \<Longrightarrow> c \<in> set t \<Longrightarrow> c \<in> set s \<and> c \<noteq> d"
proof (induction s arbitrary: t)
  case Nil
  then show ?case by simp
next
  case (Cons a s)
  show ?case
  proof (cases "a = d")
    case True
    with Cons show ?thesis by auto
  next
    case False
    obtain u us where sp: "splitOn d s = u # us"
      using splitOn_nonempty [of d s] by (cases "splitOn d s") auto
    from Cons.prems False sp have "t = a # u \<or> t \<in> set us" by simp
    then show ?thesis
    proof
      assume t: "t = a # u"
      have "u \<in> set (splitOn d s)" by (simp add: sp)
      with Cons.IH Cons.prems(2) t False show ?thesis by auto
    next
      assume "t \<in> set us"
      then have "t \<in> set (splitOn d s)" by (simp add: sp)
      with Cons.IH Cons.prems(2) show ?thesis by auto
    qed
  qed
qed

lemma blankOther_cases: "isLowerAlnum (blankOther c) \<or> isWhitespace (blankOther c)"
  by (simp add: blankOther_def space_is_whitespace)

text \<open>Every token of a normalised name consists of lowercase letters and digits.\<close>

lemma tokens_lower_alnum:
  assumes "t \<in> tokensOf name" and "c \<in> set t"
  shows "isLowerAlnum c"
proof -
  from assms have c: "c \<in> set (normalizeIdentityName name)" "c \<noteq> CHR '' ''"
    using splitOn_token_chars [of t "CHR '' ''" "normalizeIdentityName name" c]
    by (auto simp: tokensOf_def)
  let ?m = "map blankOther (map toLowerChar name)"
  from c(1) have "c \<in> set (collapseWs False ?m)"
    using set_trim unfolding normalizeIdentityName_def by blast
  with c(2) have "c \<in> set ?m" "\<not> isWhitespace c"
    using set_collapseWs by blast+
  then show ?thesis using blankOther_cases by auto
qed

text \<open>
  C7 (as amended). Suppose no manual override is approved, none of the four provider
  scores is a finite number, a registered name is on record and at least one of the PAN,
  UPI and bank-holder names is on record. For each such source name the gate computes a
  similarity percentage: 0 when either normalised name is empty, and otherwise the rounded
  percentage of twice the number of common tokens over the sum of the two token counts,
  the tokens being those of the normalised (lowercase alphanumeric) names. The gate passes
  iff the best percentage is at least the configured similarity threshold (70 by default)
  and blocks with \<open>identity_similarity_below_threshold\<close> otherwise; either way it
  records the best percentage and the first source that reaches it, or no source when the
  best percentage is 0. A name whose normalised form is not empty scores 100 against
  itself, and then passes whenever the threshold is at most 100.
\<close>

theorem identity_gate_similarity:
  assumes "\<not> overrideApproved f" and "numericCandidates f = []"
      and "registeredNameOf f = Some reg" and "comparisons f \<noteq> []"
  shows "passed (evaluateIdentityMatch thr f)
           = geNum (of_int (bestScoreOf reg (comparisons f))) (thresholdSimilarity thr)
       \<and> reason (evaluateIdentityMatch thr f)
           = (if passed (evaluateIdentityMatch thr f) then ''identity_similarity_threshold''
              else ''identity_similarity_below_threshold'')
       \<and> bestSimilarity (evaluateIdentityMatch thr f) = Some (bestScoreOf reg (comparisons f))
       \<and> bestSource (evaluateIdentityMatch thr f)
           = (if bestScoreOf reg (comparisons f) = 0 then None
              else map_option fst
                (find (\<lambda>(source, v). identitySimilarityPercent reg v
                         = bestScoreOf reg (comparisons f)) (comparisons f)))
       \<and> identitySimilarityPercent reg v
           = (if normalizeIdentityName reg = [] \<or> normalizeIdentityName v = [] then 0
              else specSimilarityPercent reg v)
       \<and> (normalizeIdentityName reg \<noteq> [] \<longrightarrow> identitySimilarityPercent reg reg = 100)
       \<and> (normalizeIdentityName reg \<noteq> [] \<and> (source, reg) \<in> set (comparisons f)
            \<and> geNum 100 (thresholdSimilarity thr) \<longrightarrow> passed (evaluateIdentityMatch thr f))"
proof -
  let ?best = "bestScoreOf reg (comparisons f)"
  obtain b s where bm: "bestMatch reg (comparisons f) (0, None) = (b, s)"
    by (cases "bestMatch reg (comparisons f) (0, None)")
  have b: "b = ?best"
    using bestMatch_fst [of reg "comparisons f" 0 None] by (simp add: bm bestScoreOf_def)
  have s: "s = (if ?best = 0 then None
              else map_option fst
                (find (\<lambda>(source, v). identitySimilarityPercent reg v = ?best) (comparisons f)))"
    using bestMatch_snd [of reg "comparisons f" 0 None] by (simp add: bm bestScoreOf_def)
  have p: "passed (evaluateIdentityMatch thr f) = geNum (of_int ?best) (thresholdSimilarity thr)"
    using assms by (simp add: evaluateIdentityMatch_def Let_def bm b emptyResult_def)
  have r: "reason (evaluateIdentityMatch thr f)
           = (if passed (evaluateIdentityMatch thr f) then ''identity_similarity_threshold''
              else ''identity_similarity_below_threshold'')"
    using assms by (simp add: evaluateIdentityMatch_def Let_def bm emptyResult_def)
  have bs: "bestSimilarity (evaluateIdentityMatch thr f) = Some ?best"
    using assms by (simp add: evaluateIdentityMatch_def Let_def bm b emptyResult_def)
  have src: "bestSource (evaluateIdentityMatch thr f) = s"
    using assms by (simp add: evaluateIdentityMatch_def Let_def bm emptyResult_def)
  have same: "normalizeIdentityName reg \<noteq> [] \<longrightarrow> identitySimilarityPercent reg reg = 100"
    by (simp add: identical_names_100)
  have pass: "normalizeIdentityName reg \<noteq> [] \<and> (source, reg) \<in> set (comparisons f)
            \<and> geNum 100 (thresholdSimilarity thr) \<longrightarrow> passed (evaluateIdentityMatch thr f)"
  proof (intro impI, elim conjE)
    assume ne: "normalizeIdentityName reg \<noteq> []" and mem: "(source, reg) \<in> set (comparisons f)"
      and ge: "geNum 100 (thresholdSimilarity thr)"
    from mem have "identitySimilarityPercent reg reg \<in> set (scoresOf reg (comparisons f))"
      by (force simp: scoresOf_def)
    then have "100 \<le> ?best"
      using fold_max_mem [of "identitySimilarityPercent reg reg"] ne
      by (simp add: bestScoreOf_def identical_names_100)
    then have "(100 :: rat) \<le> of_int ?best" by linarith
    with ge have "geNum (of_int ?best) (thresholdSimilarity thr)" by (rule geNum_mono)
    with p show "passed (evaluateIdentityMatch thr f)" by simp
  qed
  from p r bs src s similarity_formula [of reg v] same pass show ?thesis by simp
qed

text \<open>
  "Rahul Sharma" against the PAN name "Amit Verma" scores 0 and is blocked under the
  default thresholds; against the PAN name "Rahul Sharma" it scores 100 and passes.
\<close>

theorem identity_gate_similarity_witness:
  "\<not> overrideApproved (fieldsWith ''Rahul Sharma'' ''Amit Verma'')
   \<and> numericCandidates (fieldsWith ''Rahul Sharma'' ''Amit Verma'') = []
   \<and> registeredNameOf (fieldsWith ''Rahul Sharma'' ''Amit Verma'') = Some ''Rahul Sharma''
   \<and> comparisons (fieldsWith ''Rahul Sharma'' ''Amit Verma'') = [(''pan'', ''Amit Verma'')]
   \<and> \<not> passed (evaluateIdentityMatch defaultThresholds (fieldsWith ''Rahul Sharma'' ''Amit Verma''))
   \<and> reason (evaluateIdentityMatch defaultThresholds (fieldsWith ''Rahul Sharma'' ''Amit Verma''))
       = ''identity_similarity_below_threshold''
   \<and> bestSimilarity (evaluateIdentityMatch defaultThresholds (fieldsWith ''Rahul Sharma'' ''Amit Verma''))
       = Some 0
   \<and> bestSource (evaluateIdentityMatch defaultThresholds (fieldsWith ''Rahul Sharma'' ''Amit Verma''))
       = None
   \<and> passed (evaluateIdentityMatch defaultThresholds (fieldsWith ''Rahul Sharma'' ''Rahul Sharma''))
   \<and> bestSimilarity (evaluateIdentityMatch defaultThresholds (fieldsWith ''Rahul Sharma'' ''Rahul Sharma''))
       = Some 100"
proof -
  let ?f = "fieldsWith ''Rahul Sharma'' ''Amit Verma''"
  let ?g = "fieldsWith ''Rahul Sharma'' ''Rahul Sharma''"
  have h1: "\<not> overrideApproved ?f" and h2: "numericCandidates ?f = []"
    and h3: "registeredNameOf ?f = Some ''Rahul Sharma''"
    and h4: "comparisons ?f = [(''pan'', ''Amit Verma'')]"
    by (simp_all add: fieldsWith_def overrideApproved_def numericCandidates_def
        registeredNameOf_def comparisons_def panNameOf_def upiNameOf_def bankNameOf_def)
  have g1: "\<not> overrideApproved ?g" and g2: "numericCandidates ?g = []"
    and g3: "registeredNameOf ?g = Some ''Rahul Sharma''"
    and g4: "comparisons ?g = [(''pan'', ''Rahul Sharma'')]"
    by (simp_all add: fieldsWith_def overrideApproved_def numericCandidates_def
        registeredNameOf_def comparisons_def panNameOf_def upiNameOf_def bankNameOf_def)
  have b0: "bestScoreOf ''Rahul Sharma'' [(''pan'', ''Amit Verma'')] = 0"
    by code_simp
  have b100: "bestScoreOf ''Rahul Sharma'' [(''pan'', ''Rahul Sharma'')] = 100"
    by code_simp
  have ne: "comparisons ?f \<noteq> []" "comparisons ?g \<noteq> []" by (simp_all add: h4 g4)
  note w1 = identity_gate_similarity [OF h1 h2 h3 ne(1), of defaultThresholds]
  note w2 = identity_gate_similarity [OF g1 g2 g3 ne(2), of defaultThresholds]
  show ?thesis
    using w1 w2 h1 h2 h3 by (simp add: h4 g4 b0 b100 defaultThresholds_def)
qed

text \<open>
  Identical names do not always score 100: a name without any letter a to z or digit
  normalises to the empty string, and the guard on empty names returns 0, so the supplier
  is blocked although the two names are the same.
\<close>

theorem identical_names_counterexample:
  "identitySimilarityPercent ''--'' ''--'' = 0
   \<and> \<not> passed (evaluateIdentityMatch defaultThresholds (fieldsWith ''--'' ''--''))
   \<and> reason (evaluateIdentityMatch defaultThresholds (fieldsWith ''--'' ''--''))
       = ''identity_similarity_below_threshold''"
  by code_simp

section \<open>Field paths\<close>

lemma getPath_Nil_doc [simp]: "ks \<noteq> [] \<Longrightarrow> getPath ks [] = None"
  by (cases ks) simp_all

lemma getPath_setPath_same: "ks \<noteq> [] \<Longrightarrow> getPath ks (setPath ks v d) = Some v"
proof (induction ks arbitrary: d)
  case Nil
  then show ?case by simp
next
  case (Cons k ks)
  show ?case
  proof (cases "ks = []")
    case True
    then show ?thesis by (simp add: update_conv')
  next
    case False
    with Cons.IH [of "subMap k d"] show ?thesis by (simp add: update_conv')
  qed
qed

lemma getPath_subMap: "ks \<noteq> [] \<Longrightarrow> getPath (k # ks) d = getPath ks (subMap k d)"
  by (auto simp: subMap_def split: option.splits fval.splits)

lemma getPath_setPath_diverge:
  "diverge p q \<Longrightarrow> getPath p (setPath q v d) = getPath p d"
proof (induction p q arbitrary: d rule: diverge.induct)
  case (1 a as b bs)
  show ?case
  proof (cases "a = b")
    case False
    then show ?thesis by (simp add: update_conv')
  next
    case True
    with "1.prems" have dv: "diverge as bs" by simp
    then have ne: "as \<noteq> []" "bs \<noteq> []" by (cases as; cases bs; simp)+
    have "getPath (a # as) (setPath (b # bs) v d) = getPath as (setPath bs v (subMap b d))"
      using ne True by (simp add: update_conv')
    also have "\<dots> = getPath as (subMap b d)"
      using "1.IH" dv by simp
    also have "\<dots> = getPath (a # as) d"
      using getPath_subMap [OF ne(1), of a d] True by simp
    finally show ?thesis .
  qed
qed simp_all

section \<open>The claim transaction\<close>

lemma claim_paths:
  "fieldPath ''releasePlan.stage1.status'' = [''releasePlan'', ''stage1'', ''status'']"
  "fieldPath ''releasePlan.stage1.startedAt'' = [''releasePlan'', ''stage1'', ''startedAt'']"
  "fieldPath ''releasePlan.stage2.status'' = [''releasePlan'', ''stage2'', ''status'']"
  "fieldPath ''releasePlan.stage2.startedAt'' = [''releasePlan'', ''stage2'', ''startedAt'']"
  "fieldPath ''releaseStatus'' = [''releaseStatus'']"
  "fieldPath ''releaseStage'' = [''releaseStage'']"
  "fieldPath ''updatedAt'' = [''updatedAt'']"
  by (simp_all add: fieldPath_def)

lemma stageField_local:
  "map_of (case getPath [''releasePlan'', k] p of Some (FMap m) \<Rightarrow> m | _ \<Rightarrow> []) name
     = stageField k name p"
  by (simp add: stageField_def split: option.splits fval.splits)

lemma claimStage_claimed_iff:
  "fst (claimStage now k p) \<longleftrightarrow>
     stageField k ''status'' p = Some (FStr ''scheduled'')
     \<and> truthyField (stageField k ''eligibleAt'' p)
     \<and> (\<forall>t. stageField k ''eligibleAt'' p = Some (FTime t) \<longrightarrow> t \<le> now)"
  unfolding claimStage_def Let_def stageField_local
  by (auto split: option.splits fval.splits)

lemma claimStage_abort: "\<not> fst (claimStage now k p) \<Longrightarrow> snd (claimStage now k p) = p"
  unfolding claimStage_def Let_def by (auto split: if_splits)

lemma claimStage_claimed_doc:
  "fst (claimStage now k p) \<Longrightarrow> snd (claimStage now k p) = fsUpdate (claimData now k) p"
  unfolding claimStage_def Let_def by (auto split: if_splits)

lemma claimed_stage_fields:
  assumes "k = ''stage1'' \<or> k = ''stage2''"
  shows "stageField k ''status'' (fsUpdate (claimData now k) p) = Some (FStr ''processing'')"
    and "stageField k ''eligibleAt'' (fsUpdate (claimData now k) p) = stageField k ''eligibleAt'' p"
  using assms
  by (auto simp: fsUpdate_def claimData_def claim_paths applyWrite_def stageField_def
      getPath_setPath_same getPath_setPath_diverge simp del: getPath.simps setPath.simps)


text \<open>
  C4. For the stage keys of the scheduler (\<open>stage1\<close>, \<open>stage2\<close>) and a stage whose
  \<open>eligibleAt\<close> is a timestamp or missing, the claim transaction claims the stage iff the
  stage it re-reads has status \<open>scheduled\<close> and an \<open>eligibleAt\<close> not after now. If it
  does not claim, it leaves the payment document as it is; if it claims, the stage's status
  becomes \<open>processing\<close> and its \<open>eligibleAt\<close> stays.
\<close>

theorem claim_requires_scheduled_and_due:
  assumes "k = ''stage1'' \<or> k = ''stage2''"
      and "stageField k ''eligibleAt'' p = None
           \<or> (\<exists>t. stageField k ''eligibleAt'' p = Some (FTime t))"
  shows "(fst (claimStage now k p) \<longleftrightarrow>
            stageField k ''status'' p = Some (FStr ''scheduled'')
            \<and> (\<exists>t. stageField k ''eligibleAt'' p = Some (FTime t) \<and> t \<le> now))
       \<and> (\<not> fst (claimStage now k p) \<longrightarrow> snd (claimStage now k p) = p)
       \<and> (fst (claimStage now k p) \<longrightarrow>
            stageField k ''status'' (snd (claimStage now k p)) = Some (FStr ''processing'')
            \<and> stageField k ''eligibleAt'' (snd (claimStage now k p))
                = stageField k ''eligibleAt'' p)"
proof -
  have pre: "fst (claimStage now k p) \<longleftrightarrow>
            stageField k ''status'' p = Some (FStr ''scheduled'')
            \<and> (\<exists>t. stageField k ''eligibleAt'' p = Some (FTime t) \<and> t \<le> now)"
    using assms(2) by (auto simp: claimStage_claimed_iff)
  have post: "fst (claimStage now k p) \<longrightarrow>
            stageField k ''status'' (snd (claimStage now k p)) = Some (FStr ''processing'')
            \<and> stageField k ''eligibleAt'' (snd (claimStage now k p))
                = stageField k ''eligibleAt'' p"
    using claimed_stage_fields [OF assms(1)] by (simp add: claimStage_claimed_doc)
  from pre post claimStage_abort show ?thesis by blast
qed

text \<open>
  At time 1,000,000 on a fresh plan: stage 1 (due at 1,000,000) is claimed, stage 2 (due
  twelve hours later) is not, and the document is unchanged by the attempt on stage 2.
\<close>

theorem claim_requires_scheduled_and_due_witness:
  "stageField ''stage1'' ''eligibleAt'' plannedPayment = Some (FTime 1000000)
   \<and> stageField ''stage1'' ''status'' plannedPayment = Some (FStr ''scheduled'')
   \<and> fst (claimStage 1000000 ''stage1'' plannedPayment)
   \<and> stageField ''stage1'' ''status'' (snd (claimStage 1000000 ''stage1'' plannedPayment))
       = Some (FStr ''processing'')
   \<and> stageField ''stage2'' ''eligibleAt'' plannedPayment = Some (FTime 44200000)
   \<and> snd (claimStage 1000000 ''stage2'' plannedPayment) = plannedPayment"
proof -
  have e1: "stageField ''stage1'' ''eligibleAt'' plannedPayment = Some (FTime 1000000)"
    and s1: "stageField ''stage1'' ''status'' plannedPayment = Some (FStr ''scheduled'')"
    and e2: "stageField ''stage2'' ''eligibleAt'' plannedPayment = Some (FTime 44200000)"
    by (simp_all add: stageField_def plannedPayment_def)
  note w1 = claim_requires_scheduled_and_due [of "''stage1''" plannedPayment 1000000]
  note w2 = claim_requires_scheduled_and_due [of "''stage2''" plannedPayment 1000000]
  show ?thesis using w1 w2 e1 s1 e2 by simp
qed

section \<open>Creation of the release plan\<close>











section \<open>Opening a dispute\<close>

lemma getPath_single: "getPath [k] d = map_of d k"
  by (simp split: option.splits)

lemma disputeOpen_fields:
  "map_of (fsSetMerge (disputeOpenData now uid (textOrNull msg)) d) ''status''
     = Some (FStr ''disputed'')"
  "map_of (fsSetMerge (disputeOpenData now uid (textOrNull msg)) d) ''payoutHold''
     = Some (FBool True)"
  "getPath [''dispute'', ''status''] (fsSetMerge (disputeOpenData now uid (textOrNull msg)) d)
     = Some (FStr ''open'')"
  unfolding getPath_single [symmetric]
  by (simp_all add: fsSetMerge_def disputeOpenData_def textOrNull_def getPath_setPath_same
      getPath_setPath_diverge del: getPath.simps setPath.simps)

lemma lowerCase_statuses:
  "st \<in> set bookingStatuses \<Longrightarrow> lowerCase st = ''completed'' \<Longrightarrow> st = ''completed''"
  by (auto simp: bookingStatuses_def lowerCase_def toLowerChar_def isUpperChar_def)

lemma raiseDispute_success:
  assumes "fst (raiseDisputeV1 pd now auth bid msg s) = Inr r"
  shows "\<exists>uid b c. auth = Some uid \<and> uid \<noteq> [] \<and> r = trim bid \<and> r \<noteq> []
           \<and> map_of (bookings s) r = Some b
           \<and> map_of b ''clientId'' = Some (FStr uid)
           \<and> statusLower b = ''completed''
           \<and> asDate pd (map_of b ''completedAt'') = Some c
           \<and> now - c \<le> DISPUTE_WINDOW_HOURS * hourMs
           \<and> snd (raiseDisputeV1 pd now auth bid msg s)
               = s\<lparr>bookings := docSetMerge r (disputeOpenData now uid (textOrNull msg)) (bookings s),
                    disputes := disputes s @ [disputeDoc now r uid b (textOrNull msg)]\<rparr>"
proof (cases auth)
  case None
  with assms show ?thesis by (simp add: raiseDisputeV1_def)
next
  case (Some uid)
  note a = Some
  show ?thesis
  proof (cases "uid = [] \<or> trim bid = []")
    case True
    with assms a show ?thesis by (auto simp: raiseDisputeV1_def Let_def)
  next
    case ne: False
    show ?thesis
    proof (cases "map_of (bookings s) (trim bid)")
      case None
      with assms a ne show ?thesis by (simp add: raiseDisputeV1_def Let_def)
    next
      case (Some b)
      note b = Some
      show ?thesis
      proof (cases "map_of b ''clientId'' = Some (FStr uid) \<and> statusLower b = ''completed''")
        case False
        with assms a ne b show ?thesis by (auto simp: raiseDisputeV1_def Let_def)
      next
        case ok: True
        show ?thesis
        proof (cases "asDate pd (map_of b ''completedAt'')")
          case None
          with assms a ne b ok show ?thesis by (simp add: raiseDisputeV1_def Let_def)
        next
          case (Some c)
          with assms a ne b ok show ?thesis
            by (simp add: raiseDisputeV1_def Let_def split: if_splits)
        qed
      qed
    qed
  qed
qed

lemma raiseDispute_error_unchanged:
  "fst (raiseDisputeV1 pd now auth bid msg s) = Inl e \<Longrightarrow>
     snd (raiseDisputeV1 pd now auth bid msg s) = s"
  unfolding raiseDisputeV1_def Let_def
  by (simp split: option.splits if_splits)

lemma raiseDispute_expired:
  assumes "auth = Some uid" and "uid \<noteq> []" and "trim bid \<noteq> []"
      and "map_of (bookings s) (trim bid) = Some b"
      and "map_of b ''clientId'' = Some (FStr uid)"
      and "statusLower b = ''completed''"
      and "asDate pd (map_of b ''completedAt'') = Some c"
      and "now - c > DISPUTE_WINDOW_HOURS * hourMs"
  shows "raiseDisputeV1 pd now auth bid msg s
           = (Inl (HttpsError ''failed-precondition'' ''Dispute window has expired''), s)"
  using assms by (simp add: raiseDisputeV1_def Let_def)


lemma dispute_window_ms: "DISPUTE_WINDOW_HOURS * hourMs = 12 * (60 * 60 * 1000)"
  by (simp add: DISPUTE_WINDOW_HOURS_def hourMs_def)

text \<open>
  C5. If \<open>raiseDisputeV1\<close> succeeds, then the booking's status, compared in lower case,
  is \<open>completed\<close> (so a status of the data model is \<open>completed\<close> itself), its completion
  time is on record and the call is made no later than 12 hours after it; and the booking
  then has status \<open>disputed\<close>, \<open>payoutHold\<close> true and \<open>dispute.status\<close> open. Every
  rejection leaves the store as it was. When the booking's completion time lies more than
  12 hours back, the call is rejected; and when the checks before the window check pass
  (caller signed in and the booking's client, booking completed), the rejection is the
  failed-precondition error "Dispute window has expired".
\<close>

theorem dispute_open_within_window:
  "(fst (raiseDisputeV1 pd now auth bid msg s) = Inr r \<longrightarrow>
      (\<exists>b c b'. map_of (bookings s) r = Some b
          \<and> statusLower b = ''completed''
          \<and> (\<forall>st. map_of b ''status'' = Some (FStr st) \<and> st \<in> set bookingStatuses
                  \<longrightarrow> st = ''completed'')
          \<and> asDate pd (map_of b ''completedAt'') = Some c
          \<and> now - c \<le> 12 * (60 * 60 * 1000)
          \<and> map_of (bookings (snd (raiseDisputeV1 pd now auth bid msg s))) r = Some b'
          \<and> map_of b' ''status'' = Some (FStr ''disputed'')
          \<and> map_of b' ''payoutHold'' = Some (FBool True)
          \<and> getPath [''dispute'', ''status''] b' = Some (FStr ''open'')))
   \<and> (fst (raiseDisputeV1 pd now auth bid msg s) = Inl e \<longrightarrow>
        snd (raiseDisputeV1 pd now auth bid msg s) = s)
   \<and> (map_of (bookings s) (trim bid) = Some b0
        \<and> asDate pd (map_of b0 ''completedAt'') = Some c0
        \<and> now - c0 > 12 * (60 * 60 * 1000)
      \<longrightarrow> (\<exists>e'. raiseDisputeV1 pd now auth bid msg s = (Inl e', s)))
   \<and> (auth = Some uid \<and> uid \<noteq> [] \<and> trim bid \<noteq> []
        \<and> map_of (bookings s) (trim bid) = Some b0
        \<and> map_of b0 ''clientId'' = Some (FStr uid)
        \<and> statusLower b0 = ''completed''
        \<and> asDate pd (map_of b0 ''completedAt'') = Some c0
        \<and> now - c0 > 12 * (60 * 60 * 1000)
      \<longrightarrow> raiseDisputeV1 pd now auth bid msg s
            = (Inl (HttpsError ''failed-precondition'' ''Dispute window has expired''), s))"
proof (intro conjI impI)
  assume ok: "fst (raiseDisputeV1 pd now auth bid msg s) = Inr r"
  from raiseDispute_success [OF ok] obtain uid' b c where
    b: "map_of (bookings s) r = Some b" and st: "statusLower b = ''completed''"
    and c: "asDate pd (map_of b ''completedAt'') = Some c"
    and w: "now - c \<le> DISPUTE_WINDOW_HOURS * hourMs"
    and post: "snd (raiseDisputeV1 pd now auth bid msg s)
               = s\<lparr>bookings := docSetMerge r (disputeOpenData now uid' (textOrNull msg)) (bookings s),
                    disputes := disputes s @ [disputeDoc now r uid' b (textOrNull msg)]\<rparr>"
    by blast
  let ?b' = "fsSetMerge (disputeOpenData now uid' (textOrNull msg)) b"
  have b': "map_of (bookings (snd (raiseDisputeV1 pd now auth bid msg s))) r = Some ?b'"
    by (simp add: post docSetMerge_def b update_conv')
  have enum: "\<forall>st. map_of b ''status'' = Some (FStr st) \<and> st \<in> set bookingStatuses
                  \<longrightarrow> st = ''completed''"
    using st lowerCase_statuses by (auto simp: statusLower_def)
  from b st enum c w b' disputeOpen_fields [of now uid' msg b]
  show "\<exists>b c b'. map_of (bookings s) r = Some b
          \<and> statusLower b = ''completed''
          \<and> (\<forall>st. map_of b ''status'' = Some (FStr st) \<and> st \<in> set bookingStatuses
                  \<longrightarrow> st = ''completed'')
          \<and> asDate pd (map_of b ''completedAt'') = Some c
          \<and> now - c \<le> 12 * (60 * 60 * 1000)
          \<and> map_of (bookings (snd (raiseDisputeV1 pd now auth bid msg s))) r = Some b'
          \<and> map_of b' ''status'' = Some (FStr ''disputed'')
          \<and> map_of b' ''payoutHold'' = Some (FBool True)
          \<and> getPath [''dispute'', ''status''] b' = Some (FStr ''open'')"
    unfolding dispute_window_ms by blast
next
  assume "fst (raiseDisputeV1 pd now auth bid msg s) = Inl e"
  then show "snd (raiseDisputeV1 pd now auth bid msg s) = s"
    by (rule raiseDispute_error_unchanged)
next
  assume h: "map_of (bookings s) (trim bid) = Some b0
        \<and> asDate pd (map_of b0 ''completedAt'') = Some c0
        \<and> now - c0 > 12 * (60 * 60 * 1000)"
  show "\<exists>e'. raiseDisputeV1 pd now auth bid msg s = (Inl e', s)"
  proof (cases "fst (raiseDisputeV1 pd now auth bid msg s)")
    case (Inl e')
    then have "snd (raiseDisputeV1 pd now auth bid msg s) = s"
      by (rule raiseDispute_error_unchanged)
    with Inl show ?thesis by (metis prod.collapse)
  next
    case (Inr r')
    from raiseDispute_success [OF Inr] h have False
      by (auto simp: dispute_window_ms)
    then show ?thesis ..
  qed
next
  assume "auth = Some uid \<and> uid \<noteq> [] \<and> trim bid \<noteq> []
        \<and> map_of (bookings s) (trim bid) = Some b0
        \<and> map_of b0 ''clientId'' = Some (FStr uid)
        \<and> statusLower b0 = ''completed''
        \<and> asDate pd (map_of b0 ''completedAt'') = Some c0
        \<and> now - c0 > 12 * (60 * 60 * 1000)"
  then show "raiseDisputeV1 pd now auth bid msg s
            = (Inl (HttpsError ''failed-precondition'' ''Dispute window has expired''), s)"
    by (intro raiseDispute_expired [of auth uid bid s b0 pd c0]) (simp_all add: dispute_window_ms)
qed

lemma sample_dispute_facts:
  "trim ''b1'' = ''b1''"
  "map_of (bookings sampleStore) ''b1'' = Some sampleBooking"
  "map_of sampleBooking ''clientId'' = Some (FStr ''client1'')"
  "statusLower sampleBooking = ''completed''"
  "asDate noDates (map_of sampleBooking ''completedAt'') = Some 1000000"
  by (simp_all add: trim_def isWhitespace_def sampleStore_def sampleBooking_def statusLower_def
      lowerCase_def toLowerChar_def isUpperChar_def asDate_def)

text \<open>
  The booking completed at 1,000,000: its client is rejected 13 hours later, with the
  store unchanged, and accepted 11 hours later, with the payout hold set.
\<close>

theorem dispute_open_within_window_witness:
  "map_of (bookings sampleStore) (trim ''b1'') = Some sampleBooking
   \<and> statusLower sampleBooking = ''completed''
   \<and> asDate noDates (map_of sampleBooking ''completedAt'') = Some 1000000
   \<and> (1000000 + 13 * (60 * 60 * 1000)) - 1000000 > (12 * (60 * 60 * 1000) :: int)
   \<and> raiseDisputeV1 noDates (1000000 + 13 * (60 * 60 * 1000)) (Some ''client1'') ''b1'' [] sampleStore
       = (Inl (HttpsError ''failed-precondition'' ''Dispute window has expired''), sampleStore)
   \<and> fst (raiseDisputeV1 noDates (1000000 + 11 * (60 * 60 * 1000)) (Some ''client1'') ''b1'' []
            sampleStore) = Inr ''b1''
   \<and> (\<exists>b'. map_of (bookings (snd (raiseDisputeV1 noDates (1000000 + 11 * (60 * 60 * 1000))
                   (Some ''client1'') ''b1'' [] sampleStore))) ''b1'' = Some b'
          \<and> map_of b' ''status'' = Some (FStr ''disputed'')
          \<and> map_of b' ''payoutHold'' = Some (FBool True)
          \<and> getPath [''dispute'', ''status''] b' = Some (FStr ''open''))"
proof -
  note f = sample_dispute_facts
  have late: "(1000000 + 13 * (60 * 60 * 1000)) - 1000000 > (12 * (60 * 60 * 1000) :: int)"
    by simp
  have ok: "fst (raiseDisputeV1 noDates (1000000 + 11 * (60 * 60 * 1000)) (Some ''client1'') ''b1'' []
            sampleStore) = Inr ''b1''"
    by (simp add: raiseDisputeV1_def Let_def f dispute_window_ms)
  note w13 = dispute_open_within_window [of noDates "1000000 + 13 * (60 * 60 * 1000)"
      "Some ''client1''" "''b1''" "[]" sampleStore "''b1''" undefined sampleBooking 1000000 "''client1''"]
  note w11 = dispute_open_within_window [of noDates "1000000 + 11 * (60 * 60 * 1000)"
      "Some ''client1''" "''b1''" "[]" sampleStore "''b1''" undefined sampleBooking 1000000 "''client1''"]
  from w13 f late have r13: "raiseDisputeV1 noDates (1000000 + 13 * (60 * 60 * 1000)) (Some ''client1'') ''b1'' [] sampleStore
       = (Inl (HttpsError ''failed-precondition'' ''Dispute window has expired''), sampleStore)"
    by simp
  from w11 ok have r11: "\<exists>b'. map_of (bookings (snd (raiseDisputeV1 noDates (1000000 + 11 * (60 * 60 * 1000))
                   (Some ''client1'') ''b1'' [] sampleStore))) ''b1'' = Some b'
          \<and> map_of b' ''status'' = Some (FStr ''disputed'')
          \<and> map_of b' ''payoutHold'' = Some (FBool True)
          \<and> getPath [''dispute'', ''status''] b' = Some (FStr ''open'')"
    by blast
  from f late r13 ok r11 show ?thesis by simp
qed

section \<open>Resolving a dispute\<close>

lemma unblock_keeps_release_plan:
  "map_of (fsSetMerge (unblockData now) d) ''releasePlan'' = map_of d ''releasePlan''"
  by (simp add: fsSetMerge_def unblockData_def applyWrite_def update_conv' delete_conv')

lemma resolveData_fields:
  "map_of (fsSetMerge (disputeResolveData now uid unblock res (textOrNull n)) d) ''status''
     = Some (FStr ''completed'')"
  "map_of (fsSetMerge (disputeResolveData now uid unblock res (textOrNull n)) d) ''payoutHold''
     = Some (FBool (\<not> unblock))"
  unfolding getPath_single [symmetric]
  by (simp_all add: fsSetMerge_def disputeResolveData_def textOrNull_def getPath_setPath_same
      getPath_setPath_diverge del: getPath.simps setPath.simps)

text \<open>
  A successful resolution sets the booking back to \<open>completed\<close>, with the payout hold
  the negation of whether the resolution unblocks the payout.
\<close>

lemma resolveDispute_booking:
  assumes "auth = Some uid" and "uid \<noteq> []" and "isAdmin" and "trim bid \<noteq> []"
      and "map_of (bookings s) (trim bid) = Some b"
  shows "\<exists>b'. fst (resolveDisputeV1 now auth isAdmin bid res n s) = Inr (trim bid)
           \<and> map_of (bookings (snd (resolveDisputeV1 now auth isAdmin bid res n s))) (trim bid)
               = Some b'
           \<and> map_of b' ''status'' = Some (FStr ''completed'')
           \<and> map_of b' ''payoutHold''
               = Some (FBool (\<not> (lowerCase (trim res) = ''pay_provider''
                                  \<or> lowerCase (trim res) = ''pay_artist''
                                  \<or> lowerCase (trim res) = ''split'')))"
proof -
  let ?u = "lowerCase (trim res) = ''pay_provider'' \<or> lowerCase (trim res) = ''pay_artist''
            \<or> lowerCase (trim res) = ''split''"
  let ?b' = "fsSetMerge (disputeResolveData now uid ?u (lowerCase (trim res)) (textOrNull n)) b"
  have bk: "bookings (snd (resolveDisputeV1 now auth isAdmin bid res n s))
              = AList.update (trim bid) ?b' (bookings s)"
    and ok: "fst (resolveDisputeV1 now auth isAdmin bid res n s) = Inr (trim bid)"
    using assms
    by (auto simp: resolveDisputeV1_def Let_def docSetMerge_def split: option.splits)
  have "map_of (bookings (snd (resolveDisputeV1 now auth isAdmin bid res n s))) (trim bid)
          = Some ?b'"
    by (simp add: bk update_conv')
  with ok resolveData_fields [of now uid ?u "lowerCase (trim res)" n b] show ?thesis by blast
qed

text \<open>No resolution changes the \<open>releasePlan\<close> field of any payment.\<close>

lemma resolveDispute_keeps_release_plan:
  assumes "map_of (payments s) i = Some d"
  shows "\<exists>d'. map_of (payments (snd (resolveDisputeV1 now auth isAdmin bid res n s))) i = Some d'
           \<and> map_of d' ''releasePlan'' = map_of d ''releasePlan''"
  using assms unblock_keeps_release_plan
  by (auto simp: resolveDisputeV1_def Let_def docSetMerge_def update_conv'
      split: option.splits)

text \<open>
  C6. Resolving a dispute in favour of the provider sets the booking back to
  \<open>completed\<close> and lifts the payout hold, and it leaves the nested record of stage 2
  untouched, \<open>eligibleAt\<close> included. But it does not put the stage back on schedule: the
  data of the payment write names the fields \<open>releasePlan.stage2.status\<close> and
  \<open>releasePlan.stage2.error\<close>, and a \<open>set\<close> with merge takes each name as one field, so
  the payment gains top-level fields of these names while the stage keeps status \<open>hold\<close>
  and its error, and the next claim attempt aborts. The same data passed to \<open>update\<close>, as
  the scheduler writes its stage fields, resets the status and clears the error.
\<close>

theorem resolve_leaves_stage_on_hold:
  "resolveDisputeV1 50000000 (Some ''admin1'') True ''b1'' ''pay_provider'' [] disputedStore
     = (Inr ''b1'',
        disputedStore\<lparr>bookings := bookings (snd (resolveDisputeV1 50000000 (Some ''admin1'') True
                                       ''b1'' ''pay_provider'' [] disputedStore)),
                      payments := [(''pay1'', resolvedPayment)]\<rparr>)
   \<and> (\<exists>b'. map_of (bookings (snd (resolveDisputeV1 50000000 (Some ''admin1'') True
                                       ''b1'' ''pay_provider'' [] disputedStore))) ''b1'' = Some b'
          \<and> map_of b' ''status'' = Some (FStr ''completed'')
          \<and> map_of b' ''payoutHold'' = Some (FBool False))
   \<and> stageField ''stage2'' ''status'' heldPayment = Some (FStr ''hold'')
   \<and> stageField ''stage2'' ''status'' resolvedPayment = Some (FStr ''hold'')
   \<and> stageField ''stage2'' ''error'' resolvedPayment = Some (FStr ''payout_hold'')
   \<and> map_of resolvedPayment ''releasePlan.stage2.status'' = Some (FStr ''scheduled'')
   \<and> stageField ''stage2'' ''status'' (fsUpdate (unblockData 50000000) heldPayment)
       = Some (FStr ''scheduled'')
   \<and> stageField ''stage2'' ''error'' (fsUpdate (unblockData 50000000) heldPayment) = None"
proof -
  have paths: "fieldPath ''releasePlan.stage2.status'' = [''releasePlan'', ''stage2'', ''status'']"
    "fieldPath ''releasePlan.stage2.error'' = [''releasePlan'', ''stage2'', ''error'']"
    "fieldPath ''releasePlan.stage2.updatedAt'' = [''releasePlan'', ''stage2'', ''updatedAt'']"
    "fieldPath ''updatedAt'' = [''updatedAt'']"
    by (simp_all add: fieldPath_def)
  have tr: "trim ''b1'' = ''b1''" "trim ''pay_provider'' = ''pay_provider''"
    "lowerCase ''pay_provider'' = ''pay_provider''" "textOrNull [] = FNull"
    by (simp_all add: trim_def isWhitespace_def lowerCase_def toLowerChar_def isUpperChar_def textOrNull_def)
  have run: "resolveDisputeV1 50000000 (Some ''admin1'') True ''b1'' ''pay_provider'' [] disputedStore
     = (Inr ''b1'',
        disputedStore\<lparr>bookings := bookings (snd (resolveDisputeV1 50000000 (Some ''admin1'') True
                                       ''b1'' ''pay_provider'' [] disputedStore)),
                      payments := [(''pay1'', resolvedPayment)]\<rparr>)"
    by (simp add: resolveDisputeV1_def Let_def tr disputedStore_def disputedBooking_def
        heldPayment_def resolvedPayment_def queryFirst_def docSetMerge_def fsSetMerge_def
        unblockData_def applyWrite_def disputeResolveData_def)
  have held: "stageField ''stage2'' ''status'' heldPayment = Some (FStr ''hold'')"
    "stageField ''stage2'' ''status'' resolvedPayment = Some (FStr ''hold'')"
    "stageField ''stage2'' ''error'' resolvedPayment = Some (FStr ''payout_hold'')"
    "map_of resolvedPayment ''releasePlan.stage2.status'' = Some (FStr ''scheduled'')"
    by (simp_all add: stageField_def heldPayment_def resolvedPayment_def)
  have upd: "stageField ''stage2'' ''status'' (fsUpdate (unblockData 50000000) heldPayment)
       = Some (FStr ''scheduled'')"
    "stageField ''stage2'' ''error'' (fsUpdate (unblockData 50000000) heldPayment) = None"
    by (simp_all add: stageField_def fsUpdate_def unblockData_def paths applyWrite_def
        heldPayment_def subMap_def)
  have bk: "\<exists>b'. map_of (bookings (snd (resolveDisputeV1 50000000 (Some ''admin1'') True
                                       ''b1'' ''pay_provider'' [] disputedStore))) ''b1'' = Some b'
          \<and> map_of b' ''status'' = Some (FStr ''completed'')
          \<and> map_of b' ''payoutHold'' = Some (FBool False)"
    using resolveDispute_booking [of "Some ''admin1''" "''admin1''" True "''b1''" disputedStore
        disputedBooking 50000000 "''pay_provider''" "[]"]
    by (simp add: tr disputedStore_def)
  from run bk held upd show ?thesis by blast
qed

text \<open>After that resolution the scheduler cannot claim stage 2, although it is due.\<close>

lemma resolved_stage_not_claimable:
  "claimStage 50000000 ''stage2'' resolvedPayment = (False, resolvedPayment)"
  by (simp add: claimStage_def resolvedPayment_def)

section \<open>Webhook ingest\<close>

lemma leafPaths_prefix:
  "(p, v) \<in> set (leafPaths pre x) \<Longrightarrow> \<exists>rest. p = pre @ rest"
proof (induction pre x arbitrary: p v rule: leafPaths.induct)
  case (1 pre kvs)
  show ?case
  proof (cases "kvs = []")
    case True
    with "1.prems" show ?thesis by simp
  next
    case False
    with "1.prems" obtain k y where ky: "(k, y) \<in> set kvs" and m: "(p, v) \<in> set (leafPaths (pre @ [k]) y)"
      by auto
    from "1.IH" [OF False ky refl m] obtain rest where "p = (pre @ [k]) @ rest" by blast
    then show ?thesis by simp
  qed
qed simp_all

lemma getPath_fold_setPath_diverge:
  "(\<And>p v. (p, v) \<in> set ls \<Longrightarrow> diverge q p) \<Longrightarrow>
     getPath q (fold (\<lambda>(p, leaf). setPath p leaf) ls d) = getPath q d"
proof (induction ls arbitrary: d)
  case Nil
  then show ?case by simp
next
  case (Cons e ls)
  obtain p v where e: "e = (p, v)" by (cases e)
  have dv: "diverge q p" using Cons.prems [of p v] by (simp add: e)
  have "getPath q (fold (\<lambda>(p, leaf). setPath p leaf) ls (setPath p v d)) = getPath q (setPath p v d)"
    using Cons.prems by (intro Cons.IH) auto
  with dv show ?case by (simp add: e getPath_setPath_diverge del: getPath.simps setPath.simps)
qed

lemma getPath_merge_leaves_other:
  "k \<noteq> k' \<Longrightarrow>
     getPath [k] (fold (\<lambda>(p, leaf). setPath p leaf) (leafPaths [k'] x) d) = getPath [k] d"
proof (rule getPath_fold_setPath_diverge)
  fix p v
  assume "k \<noteq> k'" and "(p, v) \<in> set (leafPaths [k'] x)"
  then obtain rest where "p = [k'] @ rest" using leafPaths_prefix by blast
  with \<open>k \<noteq> k'\<close> show "diverge [k] p" by simp
qed

lemma processing_status:
  "map_of (fsSetMerge (processingData now eid src req) d) ''status'' = Some (FStr ''processing'')"
  unfolding getPath_single [symmetric]
  by (simp add: fsSetMerge_def processingData_def applyWrite_def getPath_setPath_same
      getPath_setPath_diverge getPath_merge_leaves_other
      del: getPath.simps setPath.simps leafPaths.simps(1))

lemma recordWebhook_duplicate:
  assumes "eid \<noteq> []" and "map_of logs eid = Some entry"
      and "map_of entry ''status'' = Some (FStr ''processed'')"
  shows "recordWebhook now (Some (FStr eid)) req src logs = Some (True, eid, logs)"
  using assms by (simp add: recordWebhook_def alreadyProcessed_def)

lemma recordWebhook_fresh:
  assumes "eid \<noteq> []" and "\<not> alreadyProcessed (map_of logs eid)"
  shows "recordWebhook now (Some (FStr eid)) req src logs
           = Some (False, eid, docSetMerge eid (processingData now eid src req) logs)"
    and "\<exists>e'. map_of (docSetMerge eid (processingData now eid src req) logs) eid = Some e'
           \<and> map_of e' ''status'' = Some (FStr ''processing'')"
  using assms processing_status
  by (simp_all add: recordWebhook_def docSetMerge_def update_conv')

text \<open>
  The duplicate check itself: on a log entry with status \<open>processed\<close> the handler returns
  before any write or notification and answers \<open>duplicate\<close>.
\<close>

lemma handlePaymentWebhook_processed_noop:
  assumes "paymentEventId now (req_body req) = Some (FStr eid)" and "eid \<noteq> []"
      and "map_of (webhookLogs s) eid = Some entry"
      and "map_of entry ''status'' = Some (FStr ''processed'')"
  shows "snd (handlePaymentWebhook rt now req s) = s"
    and "req_method req = ''POST'' \<and> (req_dashboardTest req \<or> req_signatureValid req)
           \<Longrightarrow> fst (handlePaymentWebhook rt now req s) = (200, ''duplicate'')"
proof -
  have dup: "recordWebhook now (Some (FStr eid)) req ''cashfree:payment'' (webhookLogs s)
          = Some (True, eid, webhookLogs s)"
    using assms by (intro recordWebhook_duplicate) auto
  with assms show "snd (handlePaymentWebhook rt now req s) = s"
    by (simp add: handlePaymentWebhook_def)
  assume "req_method req = ''POST'' \<and> (req_dashboardTest req \<or> req_signatureValid req)"
  with assms dup show "fst (handlePaymentWebhook rt now req s) = (200, ''duplicate'')"
    by (auto simp: handlePaymentWebhook_def)
qed

text \<open>
  What \<open>markWebhookLog\<close> writes when its \<open>extra\<close> has a status of its own: the data is
  \<open>{status, processedAt, ...extra}\<close>, so the status of \<open>extra\<close> replaces the status given
  as argument. The three calls after a payment was found pass \<open>'processed'\<close> together
  with \<open>{status: 'success'}\<close>, \<open>{status: 'failed'}\<close> or \<open>{status: status || 'unknown'}\<close>.
\<close>

lemma markData_status_of_extra:
  "markData now status [(''status'', Put v)] = [(''status'', Put v), (''processedAt'', Put (FTime now))]"
  by (simp add: markData_def)

lemma markWebhookLog_status_of_extra:
  "Option.bind (map_of (webhookLogs (markWebhookLog now logId ''processed''
                                       [(''status'', Put (FStr t))] s)) logId)
     (\<lambda>entry. map_of entry ''status'') = Some (FStr t)"
  unfolding getPath_single [symmetric]
  by (simp add: markWebhookLog_def markData_status_of_extra docSetMerge_def update_conv'
      fsSetMerge_def applyWrite_def getPath_setPath_same getPath_setPath_diverge
      del: getPath.simps setPath.simps)

lemma markWebhookLog_not_processed:
  "t \<noteq> ''processed'' \<Longrightarrow>
     \<not> alreadyProcessed (map_of (webhookLogs (markWebhookLog now logId ''processed''
                                               [(''status'', Put (FStr t))] s)) logId)"
  using markWebhookLog_status_of_extra [of now logId t s]
  by (auto simp: alreadyProcessed_def split: option.splits)

text \<open>
  So no success event that the handler handles for a payment on record is logged as
  \<open>processed\<close>: whenever the handler answers \<open>ok\<close> to such an event, the log entry it
  leaves does not pass the duplicate check.
\<close>

lemma dispatch_success_not_processed:
  assumes "truthyField (orderIdOf (req_body req))"
      and "Option.bind (orderIdOf (req_body req))
             (\<lambda>orderId. queryFirst ''gatewayOrderId'' orderId (payments s)) = Some (pid, pd)"
      and "statusIn (normalizeStatus rt (txStatusRawOf (req_body req))) PAYMENT_SUCCESS_STATUSES"
      and "fst (dispatchPayment rt now req eid s) = (200, ''ok'')"
  shows "\<not> alreadyProcessed (map_of (webhookLogs (snd (dispatchPayment rt now req eid s))) eid)"
  using assms markWebhookLog_not_processed [of "''success''" now eid]
  unfolding dispatchPayment_def Let_def
  by (simp split: option.splits fval.splits if_splits)

lemma handled_success_not_processed:
  assumes "req_method req = ''POST''" and "req_dashboardTest req \<or> req_signatureValid req"
      and "paymentEventId now (req_body req) = Some (FStr eid)" and "eid \<noteq> []"
      and "truthyField (orderIdOf (req_body req))"
      and "Option.bind (orderIdOf (req_body req))
             (\<lambda>orderId. queryFirst ''gatewayOrderId'' orderId (payments s)) = Some (pid, pd)"
      and "statusIn (normalizeStatus rt (txStatusRawOf (req_body req))) PAYMENT_SUCCESS_STATUSES"
      and "fst (handlePaymentWebhook rt now req s) = (200, ''ok'')"
  shows "\<not> alreadyProcessed (map_of (webhookLogs (snd (handlePaymentWebhook rt now req s))) eid)"
proof (cases "alreadyProcessed (map_of (webhookLogs s) eid)")
  case True
  with assms show ?thesis by (auto simp: handlePaymentWebhook_def recordWebhook_def)
next
  case False
  let ?s' = "s\<lparr>webhookLogs :=
               docSetMerge eid (processingData now eid ''cashfree:payment'' req) (webhookLogs s)\<rparr>"
  from False assms have h: "handlePaymentWebhook rt now req s = dispatchPayment rt now req eid ?s'"
    by (auto simp: handlePaymentWebhook_def recordWebhook_def)
  have p: "payments ?s' = payments s" by simp
  from assms h show ?thesis
    using dispatch_success_not_processed [of req ?s' pid pd rt now eid] by (simp only: p) simp
qed

lemma sample_event_id: "paymentEventId now (req_body successRequest) = Some (FStr ''evt1'')"
  by (simp add: paymentEventId_def successRequest_def successEvent_def)

lemmas webhook_sample_defs =
  handlePaymentWebhook_def paymentEventId_def recordWebhook_def alreadyProcessed_def
  pendingStore_def deliveredStore_def redeliveredStore_def dispatchPayment_def
  successRequest_def successEvent_def
  plainRuntime_def docSetMerge_def fsSetMerge_def processingData_def applyWrite_def
  orderIdOf_def orderObjOf_def paymentObjOf_def objOf_def txStatusRawOf_def
  normalizeStatus_def textOf_def lowerCase_def toLowerChar_def isUpperChar_def trim_def
  isWhitespace_def statusIn_def PAYMENT_SUCCESS_STATUSES_def orderAmountOf_def numberOf_def
  queryFirst_def paymentPaidData_def paymentIdOf_def orNull_def amountValue_def
  fsUpdate_def fieldPath_def bookingPaid_def bookingPaidData_def sendNotification_def
  notifyIfSet_def paymentNotice_def markWebhookLog_def markData_def subMap_def Let_def

lemma sample_first_delivery:
  "handlePaymentWebhook plainRuntime 777 successRequest pendingStore = ((200, ''ok''), deliveredStore)"
  by (simp add: webhook_sample_defs)

lemma sample_second_delivery:
  "handlePaymentWebhook plainRuntime 888 successRequest deliveredStore
     = ((200, ''ok''), redeliveredStore)"
  by (simp add: webhook_sample_defs)

text \<open>
  C3. A replayed event is meant to be recognised by its log entry and answered as a
  duplicate, with no further effect. A signed success event \<open>evt1\<close> for a payment on
  record is delivered to a store that has not seen it: the handler marks payment and
  booking paid, notifies the client and the artist and answers \<open>ok\<close>. The log entry it
  leaves has status \<open>success\<close>, not \<open>processed\<close>, because the status in \<open>extra\<close> replaces
  the one that \<open>markWebhookLog\<close> is called with. So when the same event is delivered
  again, \<open>recordWebhook\<close> reports no duplicate: the handler answers \<open>ok\<close>, not
  \<open>duplicate\<close>, writes payment, booking and log again and sends the two notifications a
  second time.
\<close>

theorem webhook_replay_is_processed_again:
  "handlePaymentWebhook plainRuntime 777 successRequest pendingStore
     = ((200, ''ok''), deliveredStore)
   \<and> Option.bind (map_of (webhookLogs deliveredStore) ''evt1'') (\<lambda>entry. map_of entry ''status'')
       = Some (FStr ''success'')
   \<and> recordWebhook 888 (paymentEventId 888 (req_body successRequest)) successRequest
         ''cashfree:payment'' (webhookLogs deliveredStore)
       = Some (False, ''evt1'',
               docSetMerge ''evt1'' (processingData 888 ''evt1'' ''cashfree:payment'' successRequest)
                 (webhookLogs deliveredStore))
   \<and> handlePaymentWebhook plainRuntime 888 successRequest deliveredStore
       = ((200, ''ok''), redeliveredStore)
   \<and> redeliveredStore \<noteq> deliveredStore
   \<and> notifications redeliveredStore
       = notifications deliveredStore
         @ [(Some (FStr ''client1''), ''payment_success'',
             [(''amount'', FNum 20000), (''bookingId'', FStr ''b1'')]),
            (Some (FStr ''artist1''), ''payment_success'',
             [(''amount'', FNum 20000), (''bookingId'', FStr ''b1'')])]"
proof -
  have log: "Option.bind (map_of (webhookLogs deliveredStore) ''evt1'')
               (\<lambda>entry. map_of entry ''status'') = Some (FStr ''success'')"
    by (simp add: deliveredStore_def)
  have fresh: "\<not> alreadyProcessed (map_of (webhookLogs deliveredStore) ''evt1'')"
    by (simp add: alreadyProcessed_def deliveredStore_def)
  have rec: "recordWebhook 888 (paymentEventId 888 (req_body successRequest)) successRequest
         ''cashfree:payment'' (webhookLogs deliveredStore)
       = Some (False, ''evt1'',
               docSetMerge ''evt1'' (processingData 888 ''evt1'' ''cashfree:payment'' successRequest)
                 (webhookLogs deliveredStore))"
    using fresh by (simp add: sample_event_id recordWebhook_fresh(1))
  have ne: "redeliveredStore \<noteq> deliveredStore"
  proof
    assume "redeliveredStore = deliveredStore"
    then have "length (notifications redeliveredStore) = length (notifications deliveredStore)"
      by simp
    then show False by (simp add: redeliveredStore_def deliveredStore_def)
  qed
  have nt: "notifications redeliveredStore
       = notifications deliveredStore
         @ [(Some (FStr ''client1''), ''payment_success'',
             [(''amount'', FNum 20000), (''bookingId'', FStr ''b1'')]),
            (Some (FStr ''artist1''), ''payment_success'',
             [(''amount'', FNum 20000), (''bookingId'', FStr ''b1'')])]"
    by (simp add: redeliveredStore_def deliveredStore_def)
  from sample_first_delivery log rec sample_second_delivery ne nt show ?thesis by blast
qed


section \<open>The payout worker\<close>

lemma leafPaths_stageKeyValue: "leafPaths p (stageKeyValue k) = [(p, stageKeyValue k)]"
  by (simp add: stageKeyValue_def split: option.splits)

lemma transferMap_fields:
  "map_of (fsSetMerge (transferMapData now j pid) d) ''status'' = Some (FStr ''requested'')"
  "map_of (fsSetMerge (transferMapData now j pid) d) ''bookingId'' = Some (FStr (job_bookingId j))"
  "map_of (fsSetMerge (transferMapData now j pid) d) ''paymentId'' = Some (FStr pid)"
  "map_of (fsSetMerge (transferMapData now j pid) d) ''stageKey''
     = Some (stageKeyValue (job_stageKey j))"
  "map_of (fsSetMerge (transferMapData now j pid) d) ''amount'' = Some (FNum (job_amount j))"
  unfolding getPath_single [symmetric]
  by (simp_all add: fsSetMerge_def transferMapData_def leafPaths_stageKeyValue
      getPath_setPath_same getPath_setPath_diverge
      del: getPath.simps setPath.simps leafPaths.simps(1))

lemma runEffects_append: "runEffects (xs @ ys) s = runEffects ys (runEffects xs s)"
  by (simp add: runEffects_def)

lemma runEffects_promoCalls: "runEffects (promoCalls j) s = s"
  by (simp add: promoCalls_def runEffects_def)

text \<open>
  Neither payload has a field \<open>method\<close> or \<open>body\<close>: both requests go out as POST without a
  body.
\<close>

lemma callPayout_payloads:
  "callPayout path (beneficiaryPayload beneId bankDetails) = GatewayCall path (FStr ''POST'') None"
  "callPayout path (transferPayload rt j beneId) = GatewayCall path (FStr ''POST'') None"
  by (simp_all add: callPayout_def beneficiaryPayload_def transferPayload_def)

text \<open>The attempt holds the sentinel, so the update of the payment is never written.\<close>

lemma attempt_refused: "\<not> elementAccepted (attemptElement j)"
  by (simp add: elementAccepted_def attemptElement_def)

lemma processPayoutJob_never_returns: "fst (processPayoutJob rt now a j s) \<noteq> Returned"
  by (simp add: processPayoutJob_def attempt_refused Let_def split: option.splits)

lemma transfer_requested_if_registered:
  assumes "queryFirst ''bookingId'' (FStr (job_bookingId j)) (payments s) = Some (pid, pd)"
      and "addBeneficiaryOk a"
  shows "GatewayCall ''/payout/v1/requestTransfer'' (FStr ''POST'') None
           \<in> set (snd (processPayoutJob rt now a j s))"
  using assms
  by (simp add: processPayoutJob_def callPayout_payloads Let_def split: option.splits)

lemma processPayoutJob_reaches_transfer:
  assumes "GatewayCall ''/payout/v1/requestTransfer'' m b
             \<in> set (snd (processPayoutJob rt now a j s))"
  shows "\<exists>pid pd post.
           queryFirst ''bookingId'' (FStr (job_bookingId j)) (payments s) = Some (pid, pd)
         \<and> m = FStr ''POST'' \<and> b = None
         \<and> snd (processPayoutJob rt now a j s)
             = promoCalls j
               @ [callPayout ''/payout/v1/addBeneficiary''
                    (beneficiaryPayload (job_payoutType j @ ''_'' @ job_recipientId j)
                       (job_bankDetails j)),
                  TransferMapWrite (job_transferId j) (transferMapData now j pid) (mapWriteOk a),
                  GatewayCall ''/payout/v1/requestTransfer'' m b]
               @ post"
proof (cases "queryFirst ''bookingId'' (FStr (job_bookingId j)) (payments s)")
  case None
  with assms show ?thesis by (simp add: processPayoutJob_def)
next
  case (Some r)
  obtain pid pd where r: "r = (pid, pd)" by (cases r)
  have np: "GatewayCall ''/payout/v1/requestTransfer'' m b \<notin> set (promoCalls j)"
    by (simp add: promoCalls_def)
  show ?thesis
  proof (cases "addBeneficiaryOk a")
    case False
    with assms Some r np show ?thesis
      by (auto simp: processPayoutJob_def callPayout_payloads Let_def split: if_splits)
  next
    case ok: True
    show ?thesis
    proof (cases "transferResult a")
      case None
      with assms Some r ok np show ?thesis
        by (auto simp: processPayoutJob_def callPayout_payloads Let_def split: if_splits)
    next
      case (Some res)
      with assms \<open>queryFirst ''bookingId'' (FStr (job_bookingId j)) (payments s) = Some r\<close> r ok np
      show ?thesis
        by (auto simp: processPayoutJob_def callPayout_payloads Let_def split: if_splits)
    qed
  qed
qed

text \<open>
  C9 (as amended). Whenever a run of the worker issues the transfer request, what it did
  up to then is, in this order: the promo deduction (for an artist), the request that
  registers the beneficiary at the gateway, the write of the transfer-map entry keyed by
  the transfer id, and then the transfer request. The entry carries status \<open>requested\<close>
  and the booking, payment, stage and amount of the job. If that write succeeds, the store
  between the write and the transfer request holds the entry, so a crash at that point
  leaves it behind. A failed write is logged and the transfer is requested all the same:
  the same request is issued in every run in which the beneficiary request succeeds,
  whatever the write of the entry did.
\<close>

theorem transfer_map_written_before_transfer:
  assumes "GatewayCall ''/payout/v1/requestTransfer'' m b
             \<in> set (snd (processPayoutJob rt now a j s))"
  shows "(\<exists>pid pd post.
           queryFirst ''bookingId'' (FStr (job_bookingId j)) (payments s) = Some (pid, pd)
         \<and> snd (processPayoutJob rt now a j s)
             = promoCalls j
               @ [callPayout ''/payout/v1/addBeneficiary''
                    (beneficiaryPayload (job_payoutType j @ ''_'' @ job_recipientId j)
                       (job_bankDetails j)),
                  TransferMapWrite (job_transferId j) (transferMapData now j pid) (mapWriteOk a),
                  GatewayCall ''/payout/v1/requestTransfer'' m b]
               @ post
         \<and> (mapWriteOk a \<longrightarrow>
              (\<exists>entry.
                  map_of (payout_transfers (runEffects
                     (promoCalls j @ [callPayout ''/payout/v1/addBeneficiary''
                               (beneficiaryPayload (job_payoutType j @ ''_'' @ job_recipientId j)
                                  (job_bankDetails j)),
                             TransferMapWrite (job_transferId j) (transferMapData now j pid)
                               (mapWriteOk a)]) s)) (job_transferId j) = Some entry
                \<and> map_of entry ''status'' = Some (FStr ''requested'')
                \<and> map_of entry ''bookingId'' = Some (FStr (job_bookingId j))
                \<and> map_of entry ''paymentId'' = Some (FStr pid)
                \<and> map_of entry ''stageKey'' = Some (stageKeyValue (job_stageKey j))
                \<and> map_of entry ''amount'' = Some (FNum (job_amount j)))))
       \<and> (\<forall>a'. addBeneficiaryOk a' \<longrightarrow>
              GatewayCall ''/payout/v1/requestTransfer'' m b
                \<in> set (snd (processPayoutJob rt now a' j s)))"
proof -
  from processPayoutJob_reaches_transfer [OF assms] obtain pid pd post where
    q: "queryFirst ''bookingId'' (FStr (job_bookingId j)) (payments s) = Some (pid, pd)"
    and mb: "m = FStr ''POST''" "b = None"
    and fx: "snd (processPayoutJob rt now a j s)
             = promoCalls j
               @ [callPayout ''/payout/v1/addBeneficiary''
                    (beneficiaryPayload (job_payoutType j @ ''_'' @ job_recipientId j)
                       (job_bankDetails j)),
                  TransferMapWrite (job_transferId j) (transferMapData now j pid) (mapWriteOk a),
                  GatewayCall ''/payout/v1/requestTransfer'' m b]
               @ post"
    by blast
  let ?old = "case map_of (payout_transfers s) (job_transferId j) of None \<Rightarrow> [] | Some d \<Rightarrow> d"
  let ?entry = "fsSetMerge (transferMapData now j pid) ?old"
  have st: "mapWriteOk a \<Longrightarrow>
      map_of (payout_transfers (runEffects
         (promoCalls j @ [callPayout ''/payout/v1/addBeneficiary''
                   (beneficiaryPayload (job_payoutType j @ ''_'' @ job_recipientId j)
                      (job_bankDetails j)),
                 TransferMapWrite (job_transferId j) (transferMapData now j pid)
                   (mapWriteOk a)]) s)) (job_transferId j) = Some ?entry"
    by (simp add: runEffects_append runEffects_promoCalls)
       (simp add: runEffects_def callPayout_payloads docSetMerge_def update_conv')
  have first: "\<exists>pid pd post.
           queryFirst ''bookingId'' (FStr (job_bookingId j)) (payments s) = Some (pid, pd)
         \<and> snd (processPayoutJob rt now a j s)
             = promoCalls j
               @ [callPayout ''/payout/v1/addBeneficiary''
                    (beneficiaryPayload (job_payoutType j @ ''_'' @ job_recipientId j)
                       (job_bankDetails j)),
                  TransferMapWrite (job_transferId j) (transferMapData now j pid) (mapWriteOk a),
                  GatewayCall ''/payout/v1/requestTransfer'' m b]
               @ post
         \<and> (mapWriteOk a \<longrightarrow>
              (\<exists>entry.
                  map_of (payout_transfers (runEffects
                     (promoCalls j @ [callPayout ''/payout/v1/addBeneficiary''
                               (beneficiaryPayload (job_payoutType j @ ''_'' @ job_recipientId j)
                                  (job_bankDetails j)),
                             TransferMapWrite (job_transferId j) (transferMapData now j pid)
                               (mapWriteOk a)]) s)) (job_transferId j) = Some entry
                \<and> map_of entry ''status'' = Some (FStr ''requested'')
                \<and> map_of entry ''bookingId'' = Some (FStr (job_bookingId j))
                \<and> map_of entry ''paymentId'' = Some (FStr pid)
                \<and> map_of entry ''stageKey'' = Some (stageKeyValue (job_stageKey j))
                \<and> map_of entry ''amount'' = Some (FNum (job_amount j))))"
    using q fx st transferMap_fields [of now j pid ?old] by blast
  have second: "\<forall>a'. addBeneficiaryOk a' \<longrightarrow>
              GatewayCall ''/payout/v1/requestTransfer'' m b
                \<in> set (snd (processPayoutJob rt now a' j s))"
    using transfer_requested_if_registered [OF q] by (simp add: mb)
  from first second show ?thesis by (rule conjI)
qed


lemma sample_run:
  "snd (processPayoutJob rt 99 a sampleJob sampleStore) =
     (if \<not> addBeneficiaryOk a
      then [GatewayCall ''/payout/v1/addBeneficiary'' (FStr ''POST'') None]
      else [GatewayCall ''/payout/v1/addBeneficiary'' (FStr ''POST'') None,
            TransferMapWrite (job_transferId sampleJob) (transferMapData 99 sampleJob ''pay1'')
              (mapWriteOk a),
            GatewayCall ''/payout/v1/requestTransfer'' (FStr ''POST'') None]
           @ (case transferResult a of
                None \<Rightarrow> []
              | Some res \<Rightarrow>
                  [PaymentUpdate ''pay1'' (paymentPayoutData 99 sampleJob res) False]))"
proof -
  have q: "queryFirst ''bookingId'' (FStr (job_bookingId sampleJob)) (payments sampleStore)
             = Some (''pay1'', samplePayment)"
    by (simp add: queryFirst_def sampleJob_def sampleStore_def samplePayment_def)
  have b: "promoCalls sampleJob = []"
    by (simp add: sampleJob_def promoCalls_def)
  show ?thesis
    by (simp add: processPayoutJob_def q b callPayout_payloads attempt_refused Let_def
        split: option.splits)
qed

text \<open>
  The stage-1 payout of the sample booking to a vendor, all collaborators answering well:
  beneficiary request, entry, transfer request; after the first two the entry is there.
  The transfer is requested as well in the run in which the write of the entry fails.
\<close>

theorem transfer_map_written_before_transfer_witness:
  "GatewayCall ''/payout/v1/requestTransfer'' (FStr ''POST'') None
     \<in> set (snd (processPayoutJob plainRuntime 99 allWell sampleJob sampleStore))
   \<and> mapWriteOk allWell
   \<and> take 3 (snd (processPayoutJob plainRuntime 99 allWell sampleJob sampleStore))
       = [GatewayCall ''/payout/v1/addBeneficiary'' (FStr ''POST'') None,
          TransferMapWrite (job_transferId sampleJob) (transferMapData 99 sampleJob ''pay1'') True,
          GatewayCall ''/payout/v1/requestTransfer'' (FStr ''POST'') None]
   \<and> (\<exists>entry.
          map_of (payout_transfers (runEffects
             (take 2 (snd (processPayoutJob plainRuntime 99 allWell sampleJob sampleStore)))
             sampleStore))
            (job_transferId sampleJob) = Some entry
        \<and> map_of entry ''status'' = Some (FStr ''requested'')
        \<and> map_of entry ''bookingId'' = Some (FStr ''b1'')
        \<and> map_of entry ''paymentId'' = Some (FStr ''pay1'')
        \<and> map_of entry ''stageKey'' = Some (FStr ''stage1'')
        \<and> map_of entry ''amount'' = Some (FNum 9500))
   \<and> addBeneficiaryOk (allWell\<lparr>mapWriteOk := False\<rparr>)
   \<and> GatewayCall ''/payout/v1/requestTransfer'' (FStr ''POST'') None
       \<in> set (snd (processPayoutJob plainRuntime 99 (allWell\<lparr>mapWriteOk := False\<rparr>)
                      sampleJob sampleStore))"
proof -
  have ok: "addBeneficiaryOk allWell" "mapWriteOk allWell"
    "transferResult allWell = Some [(''referenceId'', FStr ''ref1'')]"
    "addBeneficiaryOk (allWell\<lparr>mapWriteOk := False\<rparr>)"
    by (simp_all add: allWell_def)
  have m: "GatewayCall ''/payout/v1/requestTransfer'' (FStr ''POST'') None
     \<in> set (snd (processPayoutJob plainRuntime 99 allWell sampleJob sampleStore))"
    by (simp add: sample_run ok)
  have q: "queryFirst ''bookingId'' (FStr (job_bookingId sampleJob)) (payments sampleStore)
             = Some (''pay1'', samplePayment)"
    by (simp add: queryFirst_def sampleJob_def sampleStore_def samplePayment_def)
  have b: "promoCalls sampleJob = []" "job_bookingId sampleJob = ''b1''"
    "stageKeyValue (job_stageKey sampleJob) = FStr ''stage1''" "job_amount sampleJob = 9500"
    by (simp_all add: sampleJob_def promoCalls_def stageKeyValue_def)
  have t2: "take 2 (snd (processPayoutJob plainRuntime 99 allWell sampleJob sampleStore))
       = [GatewayCall ''/payout/v1/addBeneficiary'' (FStr ''POST'') None,
          TransferMapWrite (job_transferId sampleJob) (transferMapData 99 sampleJob ''pay1'') True]"
    and t3: "take 3 (snd (processPayoutJob plainRuntime 99 allWell sampleJob sampleStore))
       = [GatewayCall ''/payout/v1/addBeneficiary'' (FStr ''POST'') None,
          TransferMapWrite (job_transferId sampleJob) (transferMapData 99 sampleJob ''pay1'') True,
          GatewayCall ''/payout/v1/requestTransfer'' (FStr ''POST'') None]"
    by (simp_all add: sample_run ok)
  note w = transfer_map_written_before_transfer [OF m]
  from w [THEN conjunct1] q ok(2) b
  have e: "\<exists>entry.
          map_of (payout_transfers (runEffects
             [GatewayCall ''/payout/v1/addBeneficiary'' (FStr ''POST'') None,
              TransferMapWrite (job_transferId sampleJob) (transferMapData 99 sampleJob ''pay1'') True]
             sampleStore)) (job_transferId sampleJob) = Some entry
        \<and> map_of entry ''status'' = Some (FStr ''requested'')
        \<and> map_of entry ''bookingId'' = Some (FStr ''b1'')
        \<and> map_of entry ''paymentId'' = Some (FStr ''pay1'')
        \<and> map_of entry ''stageKey'' = Some (FStr ''stage1'')
        \<and> map_of entry ''amount'' = Some (FNum 9500)"
    by (auto simp: callPayout_payloads)
  from w [THEN conjunct2] ok(4)
  have f: "GatewayCall ''/payout/v1/requestTransfer'' (FStr ''POST'') None
       \<in> set (snd (processPayoutJob plainRuntime 99 (allWell\<lparr>mapWriteOk := False\<rparr>)
                      sampleJob sampleStore))"
    by blast
  from m ok(2) t3 e ok(4) f show ?thesis by (simp add: t2)
qed

text \<open>
  The entry is not written before any external call: the first thing the same run does
  is the beneficiary request at the gateway, and after it the transfer map is still
  empty. And in the run in which the write of the entry fails, the transfer is requested
  while the transfer map is empty.
\<close>

theorem gateway_called_before_transfer_map_counterexample:
  "take 1 (snd (processPayoutJob plainRuntime 99 allWell sampleJob sampleStore))
     = [callPayout ''/payout/v1/addBeneficiary''
          (beneficiaryPayload ''vendor_vendor1'' (job_bankDetails sampleJob))]
   \<and> payout_transfers (runEffects
        (take 1 (snd (processPayoutJob plainRuntime 99 allWell sampleJob sampleStore)))
        sampleStore) = []
   \<and> take 3 (snd (processPayoutJob plainRuntime 99 (allWell\<lparr>mapWriteOk := False\<rparr>)
                    sampleJob sampleStore))
     = [callPayout ''/payout/v1/addBeneficiary''
          (beneficiaryPayload ''vendor_vendor1'' (job_bankDetails sampleJob)),
        TransferMapWrite (job_transferId sampleJob) (transferMapData 99 sampleJob ''pay1'') False,
        callPayout ''/payout/v1/requestTransfer''
          (transferPayload plainRuntime sampleJob ''vendor_vendor1'')]
   \<and> payout_transfers (runEffects
        (take 3 (snd (processPayoutJob plainRuntime 99 (allWell\<lparr>mapWriteOk := False\<rparr>)
                       sampleJob sampleStore)))
        sampleStore) = []"
proof -
  have ok: "addBeneficiaryOk allWell" "mapWriteOk allWell"
    "transferResult allWell = Some [(''referenceId'', FStr ''ref1'')]"
    by (simp_all add: allWell_def)
  have e: "payout_transfers sampleStore = []" by (simp add: sampleStore_def)
  show ?thesis
    by (simp add: sample_run ok runEffects_def e callPayout_payloads)
qed

end
